theory Spec2Isabelle
  imports Main
begin

section \<open>Recurrence helpers (src/graphql/types/Event/recurringEventHelpers.ts)\<close>

text \<open>
  A JavaScript \<open>Date\<close> is modelled by its \<open>getTime()\<close> value: the number of
  milliseconds since the epoch, an integer. Invalid dates (\<open>NaN\<close>) are outside the model.
  A \<open>Date\<close> object is always truthy, so \<open>d || e\<close> on an optional date is a case
  distinction on \<open>None\<close> (\<open>undefined\<close> and \<open>null\<close> are both \<open>None\<close>).
  A \<open>number\<close> is modelled as an integer; the only falsy integer is \<open>0\<close>.
\<close>

type_synonym instant = int

datatype frequency = YEARLY | MONTHLY | WEEKLY | DAILY | HOURLY | MINUTELY | SECONDLY

fun FREQ_MAP :: "frequency \<Rightarrow> nat" where
  "FREQ_MAP YEARLY = 0"
| "FREQ_MAP MONTHLY = 1"
| "FREQ_MAP WEEKLY = 2"
| "FREQ_MAP DAILY = 3"
| "FREQ_MAP HOURLY = 4"
| "FREQ_MAP MINUTELY = 5"
| "FREQ_MAP SECONDLY = 6"

text \<open>
  \<open>WEEKDAY_MAP[day]\<close> is a property lookup on an object literal. For one of the seven
  own keys it yields the ordinal; for a name that \<open>Object.prototype\<close> defines it yields
  that inherited member (a function or object, neither a number nor \<open>undefined\<close>); for
  every other string it yields \<open>undefined\<close>. The lookup itself never raises.
\<close>

datatype js_member = Ordinal nat | Inherited | Undefined

definition object_prototype_keys :: "string list" where
  "object_prototype_keys =
     [''constructor'', ''hasOwnProperty'', ''isPrototypeOf'', ''propertyIsEnumerable'',
      ''toLocaleString'', ''toString'', ''valueOf'', ''__proto__'',
      ''__defineGetter__'', ''__defineSetter__'', ''__lookupGetter__'', ''__lookupSetter__'']"

definition weekday_codes :: "string list" where
  "weekday_codes = [''MO'', ''TU'', ''WE'', ''TH'', ''FR'', ''SA'', ''SU'']"

definition WEEKDAY_MAP :: "string \<Rightarrow> js_member" where
  "WEEKDAY_MAP day =
     (case map_of [(''MO'', 0), (''TU'', 1), (''WE'', 2), (''TH'', 3),
                   (''FR'', 4), (''SA'', 5), (''SU'', 6)] day of
        Some n \<Rightarrow> Ordinal n
      | None \<Rightarrow> if day \<in> set object_prototype_keys then Inherited else Undefined)"

record RecurrenceInput =
  frequency :: frequency
  interval :: "int option"
  recurrenceStartDate :: "instant option"
  recurrenceEndDate :: "instant option"
  count :: "int option"
  byDay :: "string list option"
  byMonth :: "int list option"
  byMonthDay :: "int list option"

text \<open>
  The options object handed to the rule constructor. The eleven fields that the source
  always leaves \<open>null\<close> (\<open>wkst\<close>, \<open>tzid\<close>, \<open>bysetpos\<close>, \<open>bynmonthday\<close>,
  \<open>byyearday\<close>, \<open>byweekno\<close>, \<open>bynweekday\<close>, \<open>byhour\<close>, \<open>byminute\<close>,
  \<open>bysecond\<close>, \<open>byeaster\<close>) are left out; \<open>None\<close> is \<open>null\<close>.
\<close>

record RRuleOptions =
  freq :: nat
  rr_interval :: int
  dtstart :: instant
  rr_count :: "int option"
  until :: "instant option"
  bymonth :: "int list option"
  bymonthday :: "int list option"
  byweekday :: "js_member list option"

datatype path_segment = Key string | Index nat

record issue =
  argumentPath :: "path_segment list"
  message :: "string option"

text \<open>
  Every way the operation can fail: the five \<open>TalawaGraphQLError\<close> codes the resolver
  raises, a plain \<open>Error\<close> with its message, and an exception raised inside a call to one
  of the external packages.
\<close>

datatype error =
    unauthenticated
  | invalid_arguments "issue list"
  | arguments_associated_resources_not_found "issue list"
  | unauthorized_action_on_arguments_associated_resources "issue list"
  | unexpected
  | Error string
  | LibraryException

text \<open>
  The packages \<open>rrule\<close> and \<open>date-fns\<close> are external; their code is not part of the
  sources. The functions the helpers call are parameters of the model:
  \<^item> \<open>RRule_toString opts\<close> is \<open>new rrule.RRule(opts).toString()\<close>, which may raise;
  \<^item> \<open>rrulestr s\<close> parses a rule string into a rule object of some type \<open>'rule\<close>;
  \<^item> \<open>between rule a b inc\<close> is \<open>rule.between(a, b, inc)\<close>;
  \<^item> \<open>addYears d n\<close> is the function of that name.
  The wall clock (\<open>new Date()\<close>) is the parameter \<open>now\<close> of each function that may
  read it.
\<close>

record 'rule rrule_library =
  RRule_toString :: "RRuleOptions \<Rightarrow> error + string"
  rrulestr :: "string \<Rightarrow> error + 'rule"
  between :: "'rule \<Rightarrow> instant \<Rightarrow> instant \<Rightarrow> bool \<Rightarrow> instant list"
  addYears :: "instant \<Rightarrow> int \<Rightarrow> instant"

definition initial_options :: "instant \<Rightarrow> RecurrenceInput \<Rightarrow> RRuleOptions" where
  "initial_options now recurrence =
     \<lparr> freq = FREQ_MAP (frequency recurrence),
       rr_interval = (case interval recurrence of
                        None \<Rightarrow> 1
                      | Some i \<Rightarrow> if i = 0 then 1 else i),
       dtstart = (case recurrenceStartDate recurrence of
                    None \<Rightarrow> now
                  | Some d \<Rightarrow> d),
       rr_count = None,
       until = None,
       bymonth = None,
       bymonthday = None,
       byweekday = None \<rparr>"

definition set_count :: "RecurrenceInput \<Rightarrow> RRuleOptions \<Rightarrow> RRuleOptions" where
  "set_count recurrence options =
     (case count recurrence of
        None \<Rightarrow> options
      | Some c \<Rightarrow> if c = 0 then options else options\<lparr>rr_count := Some c\<rparr>)"

definition set_until :: "RecurrenceInput \<Rightarrow> RRuleOptions \<Rightarrow> RRuleOptions" where
  "set_until recurrence options =
     (case recurrenceEndDate recurrence of
        None \<Rightarrow> options
      | Some e \<Rightarrow> options\<lparr>until := Some e\<rparr>)"

definition set_byweekday :: "RecurrenceInput \<Rightarrow> RRuleOptions \<Rightarrow> RRuleOptions" where
  "set_byweekday recurrence options =
     (case byDay recurrence of
        None \<Rightarrow> options
      | Some days \<Rightarrow>
          if length days > 0 then options\<lparr>byweekday := Some (map WEEKDAY_MAP days)\<rparr>
          else options)"

definition set_bymonth :: "RecurrenceInput \<Rightarrow> RRuleOptions \<Rightarrow> RRuleOptions" where
  "set_bymonth recurrence options =
     (case byMonth recurrence of
        None \<Rightarrow> options
      | Some ms \<Rightarrow> if length ms > 0 then options\<lparr>bymonth := Some ms\<rparr> else options)"

definition set_bymonthday :: "RecurrenceInput \<Rightarrow> RRuleOptions \<Rightarrow> RRuleOptions" where
  "set_bymonthday recurrence options =
     (case byMonthDay recurrence of
        None \<Rightarrow> options
      | Some ds \<Rightarrow> if length ds > 0 then options\<lparr>bymonthday := Some ds\<rparr> else options)"

text \<open>The options object as it stands when the rule is constructed (line 110).\<close>

definition rule_options :: "instant \<Rightarrow> RecurrenceInput \<Rightarrow> RRuleOptions" where
  "rule_options now recurrence =
     set_bymonthday recurrence
       (set_bymonth recurrence
         (set_byweekday recurrence
           (set_until recurrence
             (set_count recurrence (initial_options now recurrence)))))"

definition generateRecurrenceRuleString ::
  "'rule rrule_library \<Rightarrow> instant \<Rightarrow> RecurrenceInput \<Rightarrow> error + string" where
  "generateRecurrenceRuleString lib now recurrence =
     RRule_toString lib (rule_options now recurrence)"

definition getRecurringInstanceDates ::
  "'rule rrule_library \<Rightarrow> instant \<Rightarrow> string \<Rightarrow> instant \<Rightarrow> instant option \<Rightarrow> instant option
     \<Rightarrow> error + instant list" where
  "getRecurringInstanceDates lib now rRuleString startDate endDate queryEndDate =
     (case rrulestr lib rRuleString of
        Inl e \<Rightarrow> Inl e
      | Inr rule \<Rightarrow>
          let effectiveEndDate =
                (case endDate of
                   Some e \<Rightarrow> e
                 | None \<Rightarrow> (case queryEndDate of
                              Some q \<Rightarrow> q
                            | None \<Rightarrow> addYears lib now 1))
          in Inr (between lib rule startDate effectiveEndDate True))"


subsection \<open>The rule string\<close>

text \<open>
  Modelled from the spec: the text that \<open>new rrule.RRule(options).toString()\<close> returns.
  The \<open>rrule\<close> package is not part of the sources. The spec (4.1) describes the output as
  a string in the standard calendar recurrence grammar
  \<open>FREQ=...;INTERVAL=...;UNTIL=...;COUNT=...;BYDAY=...;BYMONTH=...;BYMONTHDAY=...\<close>
  with only the fields actually present encoded, with the start instant recorded as the
  pattern's \<open>dtstart\<close>, and says that unknown day-of-week codes fail the encoding.
  Instants are written in the grammar's UTC form \<open>YYYYMMDDTHHMMSSZ\<close>.
\<close>

function show_nat :: "nat \<Rightarrow> string" where
  "show_nat n =
     (if n < 10 then [''0123456789'' ! n]
      else show_nat (n div 10) @ [''0123456789'' ! (n mod 10)])"
  by pat_completeness auto
termination
  by (relation "measure id") auto

declare show_nat.simps [simp del]

definition show_int :: "int \<Rightarrow> string" where
  "show_int i = (if i < 0 then ''-'' @ show_nat (nat (- i)) else show_nat (nat i))"

definition pad :: "nat \<Rightarrow> string \<Rightarrow> string" where
  "pad w s = replicate (w - length s) (CHR ''0'') @ s"

fun join :: "string \<Rightarrow> string list \<Rightarrow> string" where
  "join sep [] = []"
| "join sep [x] = x"
| "join sep (x # y # ys) = x @ sep @ join sep (y # ys)"

text \<open>Year, month and day of the proleptic Gregorian calendar from a day number (day 0 is 1970-01-01).\<close>

definition civil_from_days :: "int \<Rightarrow> int \<times> int \<times> int" where
  "civil_from_days z0 =
     (let z = z0 + 719468;
          era = z div 146097;
          doe = z - era * 146097;
          yoe = (doe - doe div 1460 + doe div 36524 - doe div 146096) div 365;
          doy = doe - (365 * yoe + yoe div 4 - yoe div 100);
          mp = (5 * doy + 2) div 153;
          d = doy - (153 * mp + 2) div 5 + 1;
          m = (if mp < 10 then mp + 3 else mp - 9);
          y = yoe + era * 400 + (if m \<le> 2 then 1 else 0)
      in (y, m, d))"

definition date_time_string :: "instant \<Rightarrow> string" where
  "date_time_string t =
     (let secs = t div 1000;
          sod = secs mod 86400;
          (y, m, d) = civil_from_days (secs div 86400)
      in pad 4 (show_int y) @ pad 2 (show_int m) @ pad 2 (show_int d) @ ''T''
         @ pad 2 (show_int (sod div 3600)) @ pad 2 (show_int (sod mod 3600 div 60))
         @ pad 2 (show_int (sod mod 60)) @ ''Z'')"

definition frequency_names :: "string list" where
  "frequency_names =
     [''YEARLY'', ''MONTHLY'', ''WEEKLY'', ''DAILY'', ''HOURLY'', ''MINUTELY'', ''SECONDLY'']"

fun is_weekday :: "js_member \<Rightarrow> bool" where
  "is_weekday (Ordinal n) = (n < 7)"
| "is_weekday Inherited = False"
| "is_weekday Undefined = False"

fun weekday_name :: "js_member \<Rightarrow> string" where
  "weekday_name (Ordinal n) = (if n < 7 then weekday_codes ! n else [])"
| "weekday_name Inherited = []"
| "weekday_name Undefined = []"

definition rule_fields :: "RRuleOptions \<Rightarrow> (string \<times> string) list" where
  "rule_fields options =
     [(''FREQ'', if freq options < 7 then frequency_names ! freq options else []),
      (''INTERVAL'', show_int (rr_interval options))]
     @ (case until options of
          None \<Rightarrow> []
        | Some u \<Rightarrow> [(''UNTIL'', date_time_string u)])
     @ (case rr_count options of
          None \<Rightarrow> []
        | Some c \<Rightarrow> [(''COUNT'', show_int c)])
     @ (case byweekday options of
          None \<Rightarrow> []
        | Some ws \<Rightarrow> [(''BYDAY'', join '','' (map weekday_name ws))])
     @ (case bymonth options of
          None \<Rightarrow> []
        | Some ms \<Rightarrow> [(''BYMONTH'', join '','' (map show_int ms))])
     @ (case bymonthday options of
          None \<Rightarrow> []
        | Some ds \<Rightarrow> [(''BYMONTHDAY'', join '','' (map show_int ds))])"

definition render_rule :: "RRuleOptions \<Rightarrow> string" where
  "render_rule options =
     ''DTSTART:'' @ date_time_string (dtstart options) @ [CHR 0x0A] @ ''RRULE:''
     @ join '';'' (map (\<lambda>(k, v). k @ ''='' @ v) (rule_fields options))"

definition spec_toString :: "RRuleOptions \<Rightarrow> error + string" where
  "spec_toString options =
     (if freq options < 7
         \<and> (case byweekday options of None \<Rightarrow> True | Some ws \<Rightarrow> list_all is_weekday ws)
      then Inr (render_rule options)
      else Inl LibraryException)"


subsection \<open>Parsing and expanding a rule string\<close>

text \<open>
  Modelled from the spec: \<open>rrulestr\<close> and \<open>RRule.between\<close> of the \<open>rrule\<close>
  package, which is not part of the sources. The spec describes the expansion (4.2, 8) as
  the ascending sequence, without duplicates, of every instant within the inclusive bounds
  that satisfies the rule's frequency, interval and day constraints, for a frequency among
  \<open>DAILY\<close>, \<open>WEEKLY\<close>, \<open>MONTHLY\<close>, \<open>YEARLY\<close> (3), counted from the start instant and
  capped by the occurrence count and the end instant of the rule (4.1). Occurrences are
  taken at the start instant's time of day, in UTC, with weeks beginning on Monday; a
  period's day is the start instant's own where no constraint names one.
\<close>

fun split_on :: "char \<Rightarrow> string \<Rightarrow> string list" where
  "split_on sep [] = [[]]"
| "split_on sep (c # cs) =
     (if c = sep then [] # split_on sep cs
      else (case split_on sep cs of
              [] \<Rightarrow> [[c]]
            | w # ws \<Rightarrow> (c # w) # ws))"

definition digit_value :: "char \<Rightarrow> nat option" where
  "digit_value c =
     map_of [(CHR ''0'', 0), (CHR ''1'', 1), (CHR ''2'', 2), (CHR ''3'', 3), (CHR ''4'', 4),
             (CHR ''5'', 5), (CHR ''6'', 6), (CHR ''7'', 7), (CHR ''8'', 8), (CHR ''9'', 9)] c"

fun parse_digits :: "nat \<Rightarrow> string \<Rightarrow> nat option" where
  "parse_digits acc [] = Some acc"
| "parse_digits acc (c # cs) =
     (case digit_value c of
        None \<Rightarrow> None
      | Some v \<Rightarrow> parse_digits (10 * acc + v) cs)"

definition parse_nat :: "string \<Rightarrow> nat option" where
  "parse_nat s = (if s = [] then None else parse_digits 0 s)"

definition parse_int :: "string \<Rightarrow> int option" where
  "parse_int s =
     (case s of
        [] \<Rightarrow> None
      | c # cs \<Rightarrow> if c = CHR ''-'' then map_option (\<lambda>n. - int n) (parse_nat cs)
                  else map_option int (parse_nat s))"

text \<open>The day number of a date of the proleptic Gregorian calendar, the inverse of \<open>civil_from_days\<close>.\<close>

definition days_from_civil :: "int \<Rightarrow> int \<Rightarrow> int \<Rightarrow> int" where
  "days_from_civil y0 m d =
     (let y = (if m \<le> 2 then y0 - 1 else y0);
          era = y div 400;
          yoe = y - era * 400;
          mp = (m + 9) mod 12;
          doy = (153 * mp + 2) div 5 + d - 1;
          doe = yoe * 365 + yoe div 4 - yoe div 100 + doy
      in era * 146097 + doe - 719468)"

definition parse_date_time :: "string \<Rightarrow> instant option" where
  "parse_date_time s =
     (if length s = 16 \<and> s ! 8 = CHR ''T'' \<and> s ! 15 = CHR ''Z'' then
        (case (parse_nat (take 4 s), parse_nat (take 2 (drop 4 s)), parse_nat (take 2 (drop 6 s)),
               parse_nat (take 2 (drop 9 s)), parse_nat (take 2 (drop 11 s)),
               parse_nat (take 2 (drop 13 s))) of
           (Some y, Some m, Some d, Some hh, Some mm, Some ss) \<Rightarrow>
             Some ((days_from_civil (int y) (int m) (int d) * 86400
                    + int hh * 3600 + int mm * 60 + int ss) * 1000)
         | _ \<Rightarrow> None)
      else None)"

definition index_of :: "'a \<Rightarrow> 'a list \<Rightarrow> nat option" where
  "index_of x xs = map_of (zip xs [0..<length xs]) x"

definition parse_field :: "string \<Rightarrow> string \<Rightarrow> RRuleOptions \<Rightarrow> RRuleOptions option" where
  "parse_field k v options =
     (if k = ''FREQ'' then
        map_option (\<lambda>n. options\<lparr>freq := n\<rparr>) (index_of v frequency_names)
      else if k = ''INTERVAL'' then
        map_option (\<lambda>n. options\<lparr>rr_interval := n\<rparr>) (parse_int v)
      else if k = ''UNTIL'' then
        map_option (\<lambda>t. options\<lparr>until := Some t\<rparr>) (parse_date_time v)
      else if k = ''COUNT'' then
        map_option (\<lambda>n. options\<lparr>rr_count := Some n\<rparr>) (parse_int v)
      else if k = ''BYDAY'' then
        map_option (\<lambda>ws. options\<lparr>byweekday := Some (map Ordinal ws)\<rparr>)
          (those (map (\<lambda>c. index_of c weekday_codes) (split_on (CHR '','') v)))
      else if k = ''BYMONTH'' then
        map_option (\<lambda>ms. options\<lparr>bymonth := Some ms\<rparr>)
          (those (map parse_int (split_on (CHR '','') v)))
      else if k = ''BYMONTHDAY'' then
        map_option (\<lambda>ds. options\<lparr>bymonthday := Some ds\<rparr>)
          (those (map parse_int (split_on (CHR '','') v)))
      else None)"

fun parse_fields :: "string list \<Rightarrow> RRuleOptions \<Rightarrow> RRuleOptions option" where
  "parse_fields [] options = Some options"
| "parse_fields (f # fs) options =
     (case split_on (CHR ''='') f of
        [k, v] \<Rightarrow> (case parse_field k v options of
                     None \<Rightarrow> None
                   | Some options' \<Rightarrow> parse_fields fs options')
      | _ \<Rightarrow> None)"

definition spec_rrulestr :: "string \<Rightarrow> error + RRuleOptions" where
  "spec_rrulestr s =
     (case split_on (CHR 0x0A) s of
        [l1, l2] \<Rightarrow>
          if take 8 l1 = ''DTSTART:'' \<and> take 6 l2 = ''RRULE:'' then
            (case parse_date_time (drop 8 l1) of
               None \<Rightarrow> Inl LibraryException
             | Some t \<Rightarrow>
                 (case parse_fields (split_on (CHR '';'') (drop 6 l2))
                         \<lparr> freq = 7, rr_interval = 1, dtstart = t, rr_count = None,
                           until = None, bymonth = None, bymonthday = None,
                           byweekday = None \<rparr> of
                    None \<Rightarrow> Inl LibraryException
                  | Some options \<Rightarrow>
                      if freq options < 4 \<and> 1 \<le> rr_interval options then Inr options
                      else Inl LibraryException))
          else Inl LibraryException
      | _ \<Rightarrow> Inl LibraryException)"


text \<open>The weekday of a day number, \<open>MO = 0\<close> to \<open>SU = 6\<close>; day 0 was a Thursday.\<close>

definition weekday_of_day :: "int \<Rightarrow> nat" where
  "weekday_of_day z = nat ((z + 3) mod 7)"

text \<open>The number of the day, week, month or year that a day lies in, by frequency.\<close>

definition period_of_day :: "RRuleOptions \<Rightarrow> int \<Rightarrow> int" where
  "period_of_day options z =
     (case civil_from_days z of
        (y, m, d) \<Rightarrow>
          if freq options = 3 then z
          else if freq options = 2 then (z + 3) div 7
          else if freq options = 1 then 12 * y + m
          else y)"

definition day_matches :: "RRuleOptions \<Rightarrow> int \<Rightarrow> bool" where
  "day_matches options z =
     (let anchor = dtstart options div 86400000 in
      case (civil_from_days anchor, civil_from_days z) of
        ((y0, m0, d0), (y, m, d)) \<Rightarrow>
          (period_of_day options z - period_of_day options anchor) mod rr_interval options = 0
          \<and> (case byweekday options of
                Some ws \<Rightarrow> Ordinal (weekday_of_day z) \<in> set ws
              | None \<Rightarrow>
                  if freq options = 2 then weekday_of_day z = weekday_of_day anchor else True)
          \<and> (case bymonthday options of
                Some ds \<Rightarrow> d \<in> set ds
              | None \<Rightarrow>
                  if freq options < 2 \<and> byweekday options = None then d = d0 else True)
          \<and> (case bymonth options of
                Some ms \<Rightarrow> m \<in> set ms
              | None \<Rightarrow>
                  if freq options = 0 \<and> byweekday options = None
                     \<and> bymonthday options = None
                  then m = m0 else True))"

text \<open>The occurrences of a rule up to a limit, day by day from the start instant.\<close>

definition occurrences_until :: "RRuleOptions \<Rightarrow> instant \<Rightarrow> instant list" where
  "occurrences_until options limit =
     (let last_instant = (case until options of
                            None \<Rightarrow> limit
                          | Some u \<Rightarrow> min u limit);
          days = (if last_instant < dtstart options then 0
                  else nat ((last_instant - dtstart options) div 86400000) + 1);
          matching = filter (\<lambda>k. day_matches options (dtstart options div 86400000 + int k))
                       [0..<days];
          capped = (case rr_count options of
                      None \<Rightarrow> matching
                    | Some c \<Rightarrow> take (nat c) matching)
      in map (\<lambda>k. dtstart options + int k * 86400000) capped)"

definition spec_between :: "RRuleOptions \<Rightarrow> instant \<Rightarrow> instant \<Rightarrow> bool \<Rightarrow> instant list" where
  "spec_between options window_start window_end inc =
     filter (\<lambda>t. if inc then window_start \<le> t \<and> t \<le> window_end
                 else window_start < t \<and> t < window_end)
       (occurrences_until options window_end)"

text \<open>The package as modelled; \<open>addYears\<close> of \<open>date-fns\<close> stays a parameter.\<close>

definition rrule_model :: "(instant \<Rightarrow> int \<Rightarrow> instant) \<Rightarrow> RRuleOptions rrule_library" where
  "rrule_model add_years =
     \<lparr> RRule_toString = spec_toString,
       rrulestr = spec_rrulestr,
       between = spec_between,
       addYears = add_years \<rparr>"


text \<open>
  A stand-in for the two packages in the examples of this theory: rule strings are
  written by \<open>spec_toString\<close>, every rule string is accepted, the rule's occurrences
  are the given list (cut to the window that \<open>between\<close> is asked for), and a year has
  365 days.
\<close>

definition years_of_365_days :: "instant \<Rightarrow> int \<Rightarrow> instant" where
  "years_of_365_days d n = d + n * 31536000000"

definition fixed_library :: "instant list \<Rightarrow> string rrule_library" where
  "fixed_library occurrences =
     \<lparr> RRule_toString = spec_toString,
       rrulestr = Inr,
       between = (\<lambda>rule a b inc.
          filter (\<lambda>d. if inc then a \<le> d \<and> d \<le> b else a < d \<and> d < b) occurrences),
       addYears = years_of_365_days \<rparr>"


section \<open>The createEvent mutation (src/graphql/types/Mutation/createEvent.ts)\<close>

subsection \<open>Rows, input and result\<close>

text \<open>
  Identifiers (\<open>uuidv7\<close> column defaults) and attachment names (\<open>ulid()\<close>) are drawn
  from counters; only their freshness matters. The audit columns \<open>createdAt\<close>,
  \<open>updatedAt\<close> and \<open>updaterId\<close> are left out of the rows.
\<close>

type_synonym uuid = nat
type_synonym ulid = nat
type_synonym byte_stream = string

datatype role = administrator | regular

record user_row =
  user_id :: uuid
  user_role :: role

record organization_row =
  organization_id :: uuid

record membership_row =
  membership_organizationId :: uuid
  membership_memberId :: uuid
  membership_role :: role

record event_row =
  event_id :: uuid
  event_creatorId :: "uuid option"
  event_description :: "string option"
  event_name :: string
  event_organizationId :: uuid
  event_startAt :: instant
  event_endAt :: instant
  event_isRecurring :: bool
  event_isBaseRecurringEvent :: bool
  event_baseRecurringEventId :: "uuid option"
  event_recurrenceRuleId :: "uuid option"

record rule_row =
  rule_id :: uuid
  rule_creatorId :: "uuid option"
  rule_recurrenceRuleString :: string
  rule_recurrenceStartDate :: instant
  rule_recurrenceEndDate :: "instant option"
  rule_frequency :: frequency
  rule_interval :: int
  rule_count :: "int option"
  rule_byDay :: "string list option"
  rule_byMonth :: "int list option"
  rule_byMonthDay :: "int list option"
  rule_organizationId :: uuid
  rule_baseRecurringEventId :: uuid
  rule_latestInstanceDate :: instant

record attachment_row =
  attachment_creatorId :: "uuid option"
  attachment_eventId :: uuid
  attachment_mimeType :: string
  attachment_name :: ulid

record FileUpload =
  mimetype :: string
  createReadStream :: byte_stream

text \<open>One call \<open>ctx.minio.client.putObject(bucket, name, stream, undefined, metadata)\<close>.\<close>

record putObject_call =
  put_bucketName :: string
  put_objectName :: ulid
  put_stream :: byte_stream
  put_content_type :: string

text \<open>
  The value that \<open>mutationCreateEventInputSchema\<close> produced. That schema is not part of
  the sources; the model starts from an input it accepted. Its \<open>recurrence\<close> follows
  \<open>recurrenceInputSchema\<close>, where \<open>frequency\<close> is required: the fallback
  \<open>recurrence.frequency || "DAILY"\<close> of the resolver therefore never applies (an enum
  string is truthy). The schema has no \<open>recurrenceStartDate\<close>; the resolver sets it.
\<close>

record MutationCreateEventInput =
  name :: string
  description :: "string option"
  organizationId :: uuid
  startAt :: instant
  endAt :: instant
  recurrence :: "RecurrenceInput option"
  attachments :: "FileUpload list option"

record Event =
  Event_row :: event_row
  Event_attachments :: "attachment_row list"

text \<open>
  The request context: \<open>currentClient\<close> is \<open>Some id\<close> for an authenticated client
  with \<open>user.id = id\<close> and \<open>None\<close> otherwise.
\<close>

record request_context =
  currentClient :: "uuid option"
  bucketName :: string

text \<open>The database tables, the two generators and the log of object-store writes.\<close>

record world =
  usersTable :: "user_row list"
  organizationsTable :: "organization_row list"
  organizationMembershipsTable :: "membership_row list"
  eventsTable :: "event_row list"
  recurrenceRulesTable :: "rule_row list"
  eventAttachmentsTable :: "attachment_row list"
  next_uuid :: nat
  next_ulid :: nat
  putObject_calls :: "putObject_call list"

text \<open>
  What the resolver depends on besides the request and the stored data: the packages,
  the allow-list \<open>eventAttachmentMimeTypeEnum\<close> (not part of the sources), the wall
  clock, and whether a write to the object store succeeds.
\<close>

record 'rule environment =
  library :: "'rule rrule_library"
  eventAttachmentMimeTypeEnum :: "string list"
  clock :: instant
  putObject_succeeds :: "putObject_call \<Rightarrow> bool"

subsection \<open>The store\<close>

text \<open>
  \<open>tx.insert(table).values(v).returning()\<close>: the row is appended with a fresh
  identifier and returned. An insert of this store always returns its row, so the
  resolver's guards against an empty result are never taken here.
\<close>

definition insert_events :: "(uuid \<Rightarrow> event_row) \<Rightarrow> world \<Rightarrow> event_row list \<times> world" where
  "insert_events values w =
     (let row = values (next_uuid w)
      in ([row], w\<lparr>eventsTable := eventsTable w @ [row], next_uuid := Suc (next_uuid w)\<rparr>))"

definition insert_recurrenceRules :: "(uuid \<Rightarrow> rule_row) \<Rightarrow> world \<Rightarrow> rule_row list \<times> world" where
  "insert_recurrenceRules values w =
     (let row = values (next_uuid w)
      in ([row], w\<lparr>recurrenceRulesTable := recurrenceRulesTable w @ [row],
                  next_uuid := Suc (next_uuid w)\<rparr>))"

text \<open>\<open>tx.update(eventsTable).set({recurrenceRuleId}).where(id = baseId)\<close>.\<close>

definition update_recurrenceRuleId :: "uuid \<Rightarrow> uuid \<Rightarrow> world \<Rightarrow> world" where
  "update_recurrenceRuleId baseId ruleId w =
     w\<lparr>eventsTable :=
         map (\<lambda>e. if event_id e = baseId then e\<lparr>event_recurrenceRuleId := Some ruleId\<rparr> else e)
           (eventsTable w)\<rparr>"

text \<open>
  The rows for the attachments, with one fresh name each, in the order of the list.
  The query builder rejects an empty list of values with an \<open>Error\<close>.
\<close>

definition attachment_values :: "uuid \<Rightarrow> uuid \<Rightarrow> ulid \<times> FileUpload \<Rightarrow> attachment_row" where
  "attachment_values currentUserId eventId = (\<lambda>(new_name, attachment).
     \<lparr> attachment_creatorId = Some currentUserId,
       attachment_eventId = eventId,
       attachment_mimeType = mimetype attachment,
       attachment_name = new_name \<rparr>)"

definition insert_eventAttachments ::
  "uuid \<Rightarrow> uuid \<Rightarrow> FileUpload list \<Rightarrow> world \<Rightarrow> error + attachment_row list \<times> world" where
  "insert_eventAttachments currentUserId eventId atts w =
     (if atts = [] then Inl (Error ''values() must be called with at least one value'')
      else
        let rows = map (attachment_values currentUserId eventId) (enumerate (next_ulid w) atts)
        in Inr (rows, w\<lparr>eventAttachmentsTable := eventAttachmentsTable w @ rows,
                         next_ulid := next_ulid w + length atts\<rparr>))"

text \<open>
  \<open>Promise.all(createdEventAttachments.map((attachment, index) => ...))\<close>: one write for
  every row whose index has an upload, all issued before any is awaited; the whole fails if
  one write fails.
\<close>

definition putObject_for :: "string \<Rightarrow> attachment_row \<times> FileUpload \<Rightarrow> putObject_call" where
  "putObject_for bucket = (\<lambda>(attachment, upload).
     \<lparr> put_bucketName = bucket,
       put_objectName = attachment_name attachment,
       put_stream = createReadStream upload,
       put_content_type = attachment_mimeType attachment \<rparr>)"

definition put_attachments ::
  "'rule environment \<Rightarrow> string \<Rightarrow> attachment_row list \<Rightarrow> FileUpload list \<Rightarrow> world
     \<Rightarrow> (error + unit) \<times> world" where
  "put_attachments env bucket createdEventAttachments atts w =
     (let calls = map (putObject_for bucket) (zip createdEventAttachments atts);
          w' = w\<lparr>putObject_calls := putObject_calls w @ calls\<rparr>
      in (if list_all (putObject_succeeds env) calls then Inr () else Inl LibraryException, w'))"

text \<open>
  The attachment block, which the source has twice with the same text (lines 280-311 on
  the recurring path, lines 360-389 on the simple path).
\<close>

definition persist_attachments ::
  "'rule environment \<Rightarrow> string \<Rightarrow> uuid \<Rightarrow> uuid \<Rightarrow> FileUpload list \<Rightarrow> world
     \<Rightarrow> (error + attachment_row list) \<times> world" where
  "persist_attachments env bucket currentUserId eventId atts w =
     (case insert_eventAttachments currentUserId eventId atts w of
        Inl e \<Rightarrow> (Inl e, w)
      | Inr (createdEventAttachments, w1) \<Rightarrow>
          (case put_attachments env bucket createdEventAttachments atts w1 of
             (Inl e, w2) \<Rightarrow> (Inl e, w2)
           | (Inr u, w2) \<Rightarrow> (Inr createdEventAttachments, w2)))"


subsection \<open>Argument validation (lines 23-62 and 84-100)\<close>

text \<open>
  The transform of the argument schema checks the media type of every upload against the
  allow-list. The array check reports one issue per offending element, addressed by the
  element's index, and the transform turns each into an issue at
  \<open>["attachments", index]\<close> below the \<open>input\<close> key it runs under.
\<close>

definition mimetype_issues :: "string list \<Rightarrow> FileUpload list \<Rightarrow> issue list" where
  \<open>mimetype_issues allowed rawAttachments =
     map (\<lambda>i. \<lparr> argumentPath = [Key ''input'', Key ''attachments'', Index i],
                message = Some (''Mime type "'' @ mimetype (rawAttachments ! i)
                                @ ''" is not allowed.'') \<rparr>)
       (filter (\<lambda>i. mimetype (rawAttachments ! i) \<notin> set allowed)
          [0..<length rawAttachments])\<close>

definition argument_issues :: "string list \<Rightarrow> MutationCreateEventInput \<Rightarrow> issue list" where
  "argument_issues allowed input =
     (case attachments input of
        None \<Rightarrow> []
      | Some rawAttachments \<Rightarrow> mimetype_issues allowed rawAttachments)"

subsection \<open>The rows the resolver writes\<close>

definition base_event :: "uuid \<Rightarrow> MutationCreateEventInput \<Rightarrow> uuid \<Rightarrow> event_row" where
  "base_event currentUserId input new_id =
     \<lparr> event_id = new_id,
       event_creatorId = Some currentUserId,
       event_description = description input,
       event_name = name input,
       event_organizationId = organizationId input,
       event_startAt = startAt input,
       event_endAt = endAt input,
       event_isRecurring = True,
       event_isBaseRecurringEvent = True,
       event_baseRecurringEventId = None,
       event_recurrenceRuleId = None \<rparr>"

definition recurrence_rule ::
  "uuid \<Rightarrow> MutationCreateEventInput \<Rightarrow> RecurrenceInput \<Rightarrow> string \<Rightarrow> instant list \<Rightarrow> uuid
     \<Rightarrow> uuid \<Rightarrow> rule_row" where
  "recurrence_rule currentUserId input rec recurrenceRuleString instanceDates baseId new_id =
     \<lparr> rule_id = new_id,
       rule_creatorId = Some currentUserId,
       rule_recurrenceRuleString = recurrenceRuleString,
       rule_recurrenceStartDate = startAt input,
       rule_recurrenceEndDate = recurrenceEndDate rec,
       rule_frequency = frequency rec,
       rule_interval = (case interval rec of
                          None \<Rightarrow> 1
                        | Some i \<Rightarrow> if i = 0 then 1 else i),
       rule_count = count rec,
       rule_byDay = byDay rec,
       rule_byMonth = byMonth rec,
       rule_byMonthDay = byMonthDay rec,
       rule_organizationId = organizationId input,
       rule_baseRecurringEventId = baseId,
       rule_latestInstanceDate = (case instanceDates of
                                    [] \<Rightarrow> startAt input
                                  | d # ds \<Rightarrow> last instanceDates) \<rparr>"

definition instance_event ::
  "uuid \<Rightarrow> MutationCreateEventInput \<Rightarrow> instant \<Rightarrow> int \<Rightarrow> uuid \<Rightarrow> uuid \<Rightarrow> uuid \<Rightarrow> event_row" where
  "instance_event currentUserId input firstInstance eventDuration baseId ruleId new_id =
     \<lparr> event_id = new_id,
       event_creatorId = Some currentUserId,
       event_description = description input,
       event_name = name input,
       event_organizationId = organizationId input,
       event_startAt = firstInstance,
       event_endAt = firstInstance + eventDuration,
       event_isRecurring = True,
       event_isBaseRecurringEvent = False,
       event_baseRecurringEventId = Some baseId,
       event_recurrenceRuleId = Some ruleId \<rparr>"

text \<open>The simple insert names no recurrence column; they take their defaults.\<close>

definition standalone_event :: "uuid \<Rightarrow> MutationCreateEventInput \<Rightarrow> uuid \<Rightarrow> event_row" where
  "standalone_event currentUserId input new_id =
     \<lparr> event_id = new_id,
       event_creatorId = Some currentUserId,
       event_description = description input,
       event_name = name input,
       event_organizationId = organizationId input,
       event_startAt = startAt input,
       event_endAt = endAt input,
       event_isRecurring = False,
       event_isBaseRecurringEvent = False,
       event_baseRecurringEventId = None,
       event_recurrenceRuleId = None \<rparr>"

text \<open>
  \<open>Object.assign(createdEvent, {attachments, isRecurring: true, recurrenceRuleId,
  baseRecurringEventId})\<close>, the value returned for a first instance.
\<close>

definition returned_instance :: "event_row \<Rightarrow> attachment_row list \<Rightarrow> uuid \<Rightarrow> uuid \<Rightarrow> Event" where
  "returned_instance createdEvent createdEventAttachments ruleId baseId =
     \<lparr> Event_row = createdEvent\<lparr> event_isRecurring := True,
                                  event_recurrenceRuleId := Some ruleId,
                                  event_baseRecurringEventId := Some baseId \<rparr>,
       Event_attachments = createdEventAttachments \<rparr>"

subsection \<open>The transaction (lines 170-399)\<close>

text \<open>The first instance and its attachments, lines 261-331.\<close>

definition first_instance_block ::
  "'rule environment \<Rightarrow> string \<Rightarrow> uuid \<Rightarrow> MutationCreateEventInput \<Rightarrow> instant \<Rightarrow> int
     \<Rightarrow> uuid \<Rightarrow> uuid \<Rightarrow> world \<Rightarrow> (error + Event) \<times> world" where
  "first_instance_block env bucket currentUserId input firstInstance eventDuration
       baseId ruleId w =
     (case insert_events
             (instance_event currentUserId input firstInstance eventDuration baseId ruleId)
             w of
        (created, w1) \<Rightarrow>
          (case attachments input of
             Some atts \<Rightarrow>
               (case created of
                  [] \<Rightarrow> (Inl (Error ''Failed to create event''), w1)
                | createdEvent # _ \<Rightarrow>
                    (case persist_attachments env bucket currentUserId
                            (event_id createdEvent) atts w1 of
                       (Inl e, w2) \<Rightarrow> (Inl e, w2)
                     | (Inr createdEventAttachments, w2) \<Rightarrow>
                         (Inr (returned_instance createdEvent createdEventAttachments
                                 ruleId baseId), w2)))
           | None \<Rightarrow>
               (case created of
                  [] \<Rightarrow> (Inl (Error ''Failed to create event''), w1)
                | createdEvent # _ \<Rightarrow>
                    (Inr (returned_instance createdEvent [] ruleId baseId), w1))))"

text \<open>
  The block under \<open>if (isRecurring)\<close>, lines 176-333. It either returns from the
  resolver (\<open>Some\<close>), raises, or is left without a return (\<open>None\<close>), after which
  the statements below the block run.
\<close>

definition recurring_block ::
  "'rule environment \<Rightarrow> string \<Rightarrow> uuid \<Rightarrow> MutationCreateEventInput \<Rightarrow> RecurrenceInput \<Rightarrow> world
     \<Rightarrow> (error + Event option) \<times> world" where
  "recurring_block env bucket currentUserId input rec w =
     (case insert_events (base_event currentUserId input) w of
        ([], w1) \<Rightarrow> (Inl unexpected, w1)
      | (baseRecurringEvent # _, w1) \<Rightarrow>
     (case generateRecurrenceRuleString (library env) (clock env)
             (rec\<lparr>recurrenceStartDate := Some (startAt input)\<rparr>) of
        Inl e \<Rightarrow> (Inl e, w1)
      | Inr recurrenceRuleString \<Rightarrow>
     (let eventDuration = endAt input - startAt input;
          recurrenceEndDate = (case recurrenceEndDate rec of
                                 Some e \<Rightarrow> e
                               | None \<Rightarrow> addYears (library env) (clock env) 1)
      in
     (case getRecurringInstanceDates (library env) (clock env) recurrenceRuleString
             (startAt input) (Some recurrenceEndDate) None of
        Inl e \<Rightarrow> (Inl e, w1)
      | Inr instanceDates \<Rightarrow>
     (case insert_recurrenceRules
             (recurrence_rule currentUserId input rec recurrenceRuleString instanceDates
                (event_id baseRecurringEvent)) w1 of
        ([], w2) \<Rightarrow> (Inl (Error ''Expected createdRule to be defined''), w2)
      | (createdRule # _, w2) \<Rightarrow>
     (let w3 = update_recurrenceRuleId (event_id baseRecurringEvent) (rule_id createdRule) w2
      in
     (case instanceDates of
        [] \<Rightarrow> (Inr None, w3)
      | firstInstance # _ \<Rightarrow>
          (case first_instance_block env bucket currentUserId input firstInstance
                  eventDuration (event_id baseRecurringEvent) (rule_id createdRule) w3 of
             (Inl e, w4) \<Rightarrow> (Inl e, w4)
           | (Inr event, w4) \<Rightarrow> (Inr (Some event), w4)))))))))"

text \<open>The statements below the block, lines 335-398.\<close>

definition simple_insert ::
  "'rule environment \<Rightarrow> string \<Rightarrow> uuid \<Rightarrow> MutationCreateEventInput \<Rightarrow> world
     \<Rightarrow> (error + Event) \<times> world" where
  "simple_insert env bucket currentUserId input w =
     (case insert_events (standalone_event currentUserId input) w of
        ([], w1) \<Rightarrow> (Inl unexpected, w1)
      | (createdEvent # _, w1) \<Rightarrow>
          (case attachments input of
             Some atts \<Rightarrow>
               (case persist_attachments env bucket currentUserId (event_id createdEvent)
                       atts w1 of
                  (Inl e, w2) \<Rightarrow> (Inl e, w2)
                | (Inr createdEventAttachments, w2) \<Rightarrow>
                    (Inr \<lparr> Event_row = createdEvent,
                           Event_attachments = createdEventAttachments \<rparr>, w2))
           | None \<Rightarrow> (Inr \<lparr> Event_row = createdEvent, Event_attachments = [] \<rparr>, w1)))"

definition transaction_body ::
  "'rule environment \<Rightarrow> string \<Rightarrow> uuid \<Rightarrow> MutationCreateEventInput \<Rightarrow> world
     \<Rightarrow> (error + Event) \<times> world" where
  "transaction_body env bucket currentUserId input w =
     (case recurrence input of
        Some rec \<Rightarrow>
          (case recurring_block env bucket currentUserId input rec w of
             (Inl e, w1) \<Rightarrow> (Inl e, w1)
           | (Inr (Some event), w1) \<Rightarrow> (Inr event, w1)
           | (Inr None, w1) \<Rightarrow> simple_insert env bucket currentUserId input w1)
      | None \<Rightarrow> simple_insert env bucket currentUserId input w)"

text \<open>
  \<open>ctx.drizzleClient.transaction\<close>: an exception in the body undoes the writes to the
  tables; calls already made to the object store are not undone.
\<close>

definition transaction ::
  "(world \<Rightarrow> (error + 'a) \<times> world) \<Rightarrow> world \<Rightarrow> (error + 'a) \<times> world" where
  "transaction body w =
     (case body w of
        (Inl e, w') \<Rightarrow>
          (Inl e, w'\<lparr> eventsTable := eventsTable w,
                       recurrenceRulesTable := recurrenceRulesTable w,
                       eventAttachmentsTable := eventAttachmentsTable w \<rparr>)
      | (Inr v, w') \<Rightarrow> (Inr v, w'))"

subsection \<open>The resolver (lines 75-400)\<close>

definition currentUserOrganizationMembership ::
  "uuid \<Rightarrow> organization_row \<Rightarrow> world \<Rightarrow> membership_row option" where
  "currentUserOrganizationMembership currentUserId existingOrganization w =
     (case filter (\<lambda>m. membership_organizationId m = organization_id existingOrganization
                        \<and> membership_memberId m = currentUserId)
             (organizationMembershipsTable w) of
        [] \<Rightarrow> None
      | m # _ \<Rightarrow> Some m)"

definition createEvent ::
  "'rule environment \<Rightarrow> request_context \<Rightarrow> MutationCreateEventInput \<Rightarrow> world
     \<Rightarrow> (error + Event) \<times> world" where
  "createEvent env ctx input w =
     (case currentClient ctx of
        None \<Rightarrow> (Inl unauthenticated, w)
      | Some currentUserId \<Rightarrow>
          (let issues = argument_issues (eventAttachmentMimeTypeEnum env) input in
           if issues \<noteq> [] then (Inl (invalid_arguments issues), w)
           else
             (case List.find (\<lambda>u. user_id u = currentUserId) (usersTable w) of
                None \<Rightarrow> (Inl unauthenticated, w)
              | Some currentUser \<Rightarrow>
                  (case List.find (\<lambda>org. organization_id org = organizationId input)
                          (organizationsTable w) of
                     None \<Rightarrow>
                       (Inl (arguments_associated_resources_not_found
                               [\<lparr> argumentPath = [Key ''input'', Key ''organizationId''],
                                  message = None \<rparr>]), w)
                   | Some existingOrganization \<Rightarrow>
                       if user_role currentUser \<noteq> administrator
                          \<and> (case currentUserOrganizationMembership currentUserId
                                     existingOrganization w of
                                None \<Rightarrow> True
                              | Some membership \<Rightarrow> membership_role membership \<noteq> administrator)
                       then
                         (Inl (unauthorized_action_on_arguments_associated_resources
                                 [\<lparr> argumentPath = [Key ''input'', Key ''organizationId''],
                                    message = None \<rparr>]), w)
                       else
                         transaction
                           (transaction_body env (bucketName ctx) currentUserId input) w))))"


subsection \<open>Rows written by one call\<close>

definition created_events :: "world \<Rightarrow> world \<Rightarrow> event_row list" where
  "created_events w w' = drop (length (eventsTable w)) (eventsTable w')"

definition created_rules :: "world \<Rightarrow> world \<Rightarrow> rule_row list" where
  "created_rules w w' = drop (length (recurrenceRulesTable w)) (recurrenceRulesTable w')"

definition created_attachments :: "world \<Rightarrow> world \<Rightarrow> attachment_row list" where
  "created_attachments w w' = drop (length (eventAttachmentsTable w)) (eventAttachmentsTable w')"

definition issued_writes :: "world \<Rightarrow> world \<Rightarrow> putObject_call list" where
  "issued_writes w w' = drop (length (putObject_calls w)) (putObject_calls w')"

text \<open>
  The state after lines 178-257: the base event and the rule are written and the base
  event points to the rule.
\<close>

definition base_and_rule_written ::
  "uuid \<Rightarrow> MutationCreateEventInput \<Rightarrow> RecurrenceInput \<Rightarrow> string \<Rightarrow> instant list \<Rightarrow> world
     \<Rightarrow> world" where
  "base_and_rule_written uid input rec s ds w =
     update_recurrenceRuleId (next_uuid w) (Suc (next_uuid w))
       (snd (insert_recurrenceRules (recurrence_rule uid input rec s ds (next_uuid w))
          (snd (insert_events (base_event uid input) w))))"

section \<open>Example data\<close>

definition example_environment :: "instant list \<Rightarrow> string environment" where
  "example_environment occurrences =
     \<lparr> library = fixed_library occurrences,
       eventAttachmentMimeTypeEnum =
         [''image/avif'', ''image/jpeg'', ''image/png'', ''image/webp'', ''video/mp4'',
          ''video/webm''],
       clock = 1735689600000,
       putObject_succeeds = (\<lambda>c. True) \<rparr>"

text \<open>
  User 1 is a global administrator. User 2 administers organization 10. User 3 is a
  regular member of organization 10 and administers organization 11.
\<close>

definition example_world :: world where
  "example_world =
     \<lparr> usersTable = [\<lparr>user_id = 1, user_role = administrator\<rparr>,
                     \<lparr>user_id = 2, user_role = regular\<rparr>,
                     \<lparr>user_id = 3, user_role = regular\<rparr>],
       organizationsTable = [\<lparr>organization_id = 10\<rparr>, \<lparr>organization_id = 11\<rparr>],
       organizationMembershipsTable =
         [\<lparr>membership_organizationId = 10, membership_memberId = 2,
            membership_role = administrator\<rparr>,
          \<lparr>membership_organizationId = 10, membership_memberId = 3,
            membership_role = regular\<rparr>,
          \<lparr>membership_organizationId = 11, membership_memberId = 3,
            membership_role = administrator\<rparr>],
       eventsTable = [],
       recurrenceRulesTable = [],
       eventAttachmentsTable = [],
       next_uuid = 100,
       next_ulid = 0,
       putObject_calls = [] \<rparr>"

definition client :: "uuid \<Rightarrow> request_context" where
  "client uid = \<lparr> currentClient = Some uid, bucketName = ''talawa'' \<rparr>"

text \<open>
  A daily event on 2024-01-10 from 10:00 to 11:00 UTC in organization 10, with the given
  end of the recurrence and occurrence count.
\<close>

definition daily_standup :: "instant option \<Rightarrow> int option \<Rightarrow> MutationCreateEventInput" where
  "daily_standup end_date occurrence_count =
     \<lparr> name = ''Standup'',
       description = None,
       organizationId = 10,
       startAt = 1704880800000,
       endAt = 1704884400000,
       recurrence = Some \<lparr> frequency = DAILY, interval = Some 1, recurrenceStartDate = None,
                            recurrenceEndDate = end_date, count = occurrence_count,
                            byDay = None, byMonth = None, byMonthDay = None \<rparr>,
       attachments = None \<rparr>"

text \<open>The first three days of that series.\<close>

definition standup_days :: "instant list" where
  "standup_days = [1704880800000, 1704967200000, 1705053600000]"

definition two_uploads :: "FileUpload list" where
  "two_uploads = [\<lparr>mimetype = ''image/png'', createReadStream = ''first''\<rparr>,
                  \<lparr>mimetype = ''video/mp4'', createReadStream = ''second''\<rparr>]"


text \<open>The first \<open>n\<close> instants of a weekly series that starts on 2025-01-01 at 00:00 UTC.\<close>

definition weekly_from_2025 :: "nat \<Rightarrow> instant list" where
  "weekly_from_2025 n = map (\<lambda>k. 1735689600000 + int k * 604800000) [0..<n]"

text \<open>
  The weekly scenario: every Monday, Wednesday and Friday from 2024-01-01 00:00 UTC, six
  times; the rule string of this input and the rule it stands for.
\<close>

definition scenario_rule :: RRuleOptions where
  "scenario_rule =
     \<lparr> freq = 2, rr_interval = 1, dtstart = 1704067200000, rr_count = Some 6, until = None,
       bymonth = None, bymonthday = None,
       byweekday = Some [Ordinal 0, Ordinal 2, Ordinal 4] \<rparr>"

definition scenario_input :: RecurrenceInput where
  "scenario_input =
     \<lparr> frequency = WEEKLY, interval = Some 1, recurrenceStartDate = Some 1704067200000,
       recurrenceEndDate = None, count = Some 6, byDay = Some [''MO'', ''WE'', ''FR''],
       byMonth = None, byMonthDay = None \<rparr>"

definition scenario_string :: string where
  "scenario_string =
     ''DTSTART:20240101T000000Z'' @ [CHR 0x0A]
     @ ''RRULE:FREQ=WEEKLY;INTERVAL=1;COUNT=6;BYDAY=MO,WE,FR''"


section \<open>Properties of the encoder\<close>

lemmas option_setters =
  set_count_def set_until_def set_byweekday_def set_bymonth_def set_bymonthday_def

lemma rr_interval_rule_options:
  "rr_interval (rule_options now r) =
     (case interval r of None \<Rightarrow> 1 | Some i \<Rightarrow> if i = 0 then 1 else i)"
  by (simp add: rule_options_def option_setters initial_options_def split: option.splits)

lemma dtstart_rule_options:
  "dtstart (rule_options now r) = (case recurrenceStartDate r of None \<Rightarrow> now | Some d \<Rightarrow> d)"
  by (simp add: rule_options_def option_setters initial_options_def split: option.splits)

lemma rr_count_rule_options:
  "rr_count (rule_options now r) =
     (case count r of None \<Rightarrow> None | Some c \<Rightarrow> if c = 0 then None else Some c)"
  by (simp add: rule_options_def option_setters initial_options_def split: option.splits)


lemma rule_options_start_given:
  "recurrenceStartDate r = Some d \<Longrightarrow> rule_options now1 r = rule_options now2 r"
  by (simp add: rule_options_def initial_options_def)

lemma rule_options_interval_zero:
  "rule_options now (r\<lparr>interval := Some 0\<rparr>) = rule_options now (r\<lparr>interval := None\<rparr>)"
  by (simp add: rule_options_def option_setters initial_options_def)

lemma rule_options_count_zero:
  "rule_options now (r\<lparr>count := Some 0\<rparr>) = rule_options now (r\<lparr>count := None\<rparr>)"
  by (simp add: rule_options_def option_setters initial_options_def)

lemma show_int_1: "show_int 1 = ''1''"
  by code_simp


text \<open>
  C10. The encoder treats a zero interval and a zero count as absent: whatever the rule
  constructor does, the encoded result for \<open>interval = 0\<close> is the one for an absent
  interval, and the one for \<open>count = 0\<close> is the one for an absent count. In the rule
  string the \<open>INTERVAL\<close> field of a zero interval reads \<open>1\<close>, and a zero count
  leaves no \<open>COUNT\<close> field. For a weekly rule from 2024-01-01 with interval 0 and
  count 0 the string is \<open>DTSTART:20240101T000000Z\<close>, a line break, and
  \<open>RRULE:FREQ=WEEKLY;INTERVAL=1\<close>.
\<close>

theorem zero_interval_and_count_are_absent:
  "generateRecurrenceRuleString lib now (r\<lparr>interval := Some 0\<rparr>)
     = generateRecurrenceRuleString lib now (r\<lparr>interval := None\<rparr>)
   \<and> generateRecurrenceRuleString lib now (r\<lparr>count := Some 0\<rparr>)
     = generateRecurrenceRuleString lib now (r\<lparr>count := None\<rparr>)
   \<and> (''INTERVAL'', ''1'') \<in> set (rule_fields (rule_options now (r\<lparr>interval := Some 0\<rparr>)))
   \<and> ''COUNT'' \<notin> fst ` set (rule_fields (rule_options now (r\<lparr>count := Some 0\<rparr>)))
   \<and> generateRecurrenceRuleString (fixed_library []) now
        \<lparr> frequency = WEEKLY, interval = Some 0, recurrenceStartDate = Some 1704067200000,
          recurrenceEndDate = None, count = Some 0, byDay = None, byMonth = None,
          byMonthDay = None \<rparr>
      = Inr (''DTSTART:20240101T000000Z'' @ [CHR 0x0A] @ ''RRULE:FREQ=WEEKLY;INTERVAL=1'')"
proof -
  have a: "generateRecurrenceRuleString lib now (r\<lparr>interval := Some 0\<rparr>)
     = generateRecurrenceRuleString lib now (r\<lparr>interval := None\<rparr>)"
    by (simp only: generateRecurrenceRuleString_def rule_options_interval_zero)
  have b: "generateRecurrenceRuleString lib now (r\<lparr>count := Some 0\<rparr>)
     = generateRecurrenceRuleString lib now (r\<lparr>count := None\<rparr>)"
    by (simp only: generateRecurrenceRuleString_def rule_options_count_zero)
  have c: "(''INTERVAL'', ''1'') \<in> set (rule_fields (rule_options now (r\<lparr>interval := Some 0\<rparr>)))"
    by (simp add: rule_fields_def rr_interval_rule_options show_int_1)
  have d: "''COUNT'' \<notin> fst ` set (rule_fields (rule_options now (r\<lparr>count := Some 0\<rparr>)))"
    by (auto simp add: rule_fields_def rr_count_rule_options split: option.splits)
  have e: "generateRecurrenceRuleString (fixed_library []) now
        \<lparr> frequency = WEEKLY, interval = Some 0, recurrenceStartDate = Some 1704067200000,
          recurrenceEndDate = None, count = Some 0, byDay = None, byMonth = None,
          byMonthDay = None \<rparr>
      = Inr (''DTSTART:20240101T000000Z'' @ [CHR 0x0A] @ ''RRULE:FREQ=WEEKLY;INTERVAL=1'')"
    unfolding generateRecurrenceRuleString_def fixed_library_def years_of_365_days_def
    by (simp, code_simp)
  from a b c d e show ?thesis by blast
qed


text \<open>
  C6 (as amended). When \<open>recurrenceStartDate\<close> is given, the encoded result does not
  depend on the time of the call: two calls with the same parameters at any two times
  return the same result, whatever the rule constructor does.
\<close>

theorem encoder_ignores_clock_when_start_given:
  "recurrenceStartDate r = Some d \<Longrightarrow>
     generateRecurrenceRuleString lib now1 r = generateRecurrenceRuleString lib now2 r"
  by (simp only: generateRecurrenceRuleString_def rule_options_start_given [of r d now1 now2])

theorem encoder_ignores_clock_when_start_given_witness:
  "generateRecurrenceRuleString (fixed_library []) 1704067200000
       \<lparr> frequency = DAILY, interval = None, recurrenceStartDate = Some 1704880800000,
         recurrenceEndDate = None, count = None, byDay = None, byMonth = None,
         byMonthDay = None \<rparr>
   = generateRecurrenceRuleString (fixed_library []) 1704153600000
       \<lparr> frequency = DAILY, interval = None, recurrenceStartDate = Some 1704880800000,
         recurrenceEndDate = None, count = None, byDay = None, byMonth = None,
         byMonthDay = None \<rparr>"
  by (rule encoder_ignores_clock_when_start_given [where d = 1704880800000]) simp

text \<open>
  C6 (as stated) fails when \<open>recurrenceStartDate\<close> is absent: the encoder then hands
  the current time to the rule constructor as \<open>dtstart\<close>, and the same parameters
  encoded on 2024-01-01 and on 2024-01-02 give two different strings.
\<close>

theorem encoder_reads_clock_without_start:
  "dtstart (rule_options 1704067200000
       \<lparr> frequency = DAILY, interval = None, recurrenceStartDate = None,
         recurrenceEndDate = None, count = None, byDay = None, byMonth = None,
         byMonthDay = None \<rparr>) = 1704067200000
   \<and> dtstart (rule_options 1704153600000
       \<lparr> frequency = DAILY, interval = None, recurrenceStartDate = None,
         recurrenceEndDate = None, count = None, byDay = None, byMonth = None,
         byMonthDay = None \<rparr>) = 1704153600000
   \<and> generateRecurrenceRuleString (fixed_library []) 1704067200000
       \<lparr> frequency = DAILY, interval = None, recurrenceStartDate = None,
         recurrenceEndDate = None, count = None, byDay = None, byMonth = None,
         byMonthDay = None \<rparr>
     = Inr (''DTSTART:20240101T000000Z'' @ [CHR 0x0A] @ ''RRULE:FREQ=DAILY;INTERVAL=1'')
   \<and> generateRecurrenceRuleString (fixed_library []) 1704153600000
       \<lparr> frequency = DAILY, interval = None, recurrenceStartDate = None,
         recurrenceEndDate = None, count = None, byDay = None, byMonth = None,
         byMonthDay = None \<rparr>
     = Inr (''DTSTART:20240102T000000Z'' @ [CHR 0x0A] @ ''RRULE:FREQ=DAILY;INTERVAL=1'')
   \<and> generateRecurrenceRuleString (fixed_library []) 1704067200000
       \<lparr> frequency = DAILY, interval = None, recurrenceStartDate = None,
         recurrenceEndDate = None, count = None, byDay = None, byMonth = None,
         byMonthDay = None \<rparr>
     \<noteq> generateRecurrenceRuleString (fixed_library []) 1704153600000
       \<lparr> frequency = DAILY, interval = None, recurrenceStartDate = None,
         recurrenceEndDate = None, count = None, byDay = None, byMonth = None,
         byMonthDay = None \<rparr>"
  unfolding generateRecurrenceRuleString_def fixed_library_def dtstart_rule_options
  by (simp, code_simp)




section \<open>Properties of the resolver\<close>

lemma createEvent_reaches_transaction:
  assumes "currentClient ctx = Some uid"
    and "argument_issues (eventAttachmentMimeTypeEnum env) input = []"
    and "List.find (\<lambda>u. user_id u = uid) (usersTable w) = Some u"
    and "List.find (\<lambda>org. organization_id org = organizationId input) (organizationsTable w)
           = Some org"
    and "user_role u = administrator
         \<or> (\<exists>m. currentUserOrganizationMembership uid org w = Some m
                 \<and> membership_role m = administrator)"
  shows "createEvent env ctx input w
           = transaction (transaction_body env (bucketName ctx) uid input) w"
  using assms by (auto simp add: createEvent_def)

lemma persist_attachments_succeeds:
  assumes "atts \<noteq> []" and "\<And>c. putObject_succeeds env c"
  shows "persist_attachments env bucket uid eid atts w =
           (Inr (map (attachment_values uid eid) (enumerate (next_ulid w) atts)),
            w\<lparr> eventAttachmentsTable :=
                  eventAttachmentsTable w
                  @ map (attachment_values uid eid) (enumerate (next_ulid w) atts),
                next_ulid := next_ulid w + length atts,
                putObject_calls :=
                  putObject_calls w
                  @ map (putObject_for bucket)
                      (zip (map (attachment_values uid eid) (enumerate (next_ulid w) atts))
                           atts) \<rparr>)"
  using assms
  by (simp add: persist_attachments_def insert_eventAttachments_def put_attachments_def
      Let_def list_all_iff)

lemma first_instance_block_result:
  assumes "attachments input \<noteq> Some []" and "\<And>c. putObject_succeeds env c"
  shows "\<exists>rows w'. first_instance_block env bucket uid input d dur baseId ruleId w
           = (Inr \<lparr> Event_row = instance_event uid input d dur baseId ruleId (next_uuid w),
                   Event_attachments = rows \<rparr>, w')
         \<and> eventsTable w' = eventsTable w @ [instance_event uid input d dur baseId ruleId (next_uuid w)]
         \<and> recurrenceRulesTable w' = recurrenceRulesTable w
         \<and> (case attachments input of
               None \<Rightarrow> rows = [] \<and> eventAttachmentsTable w' = eventAttachmentsTable w
                        \<and> putObject_calls w' = putObject_calls w
             | Some atts \<Rightarrow>
                 rows = map (attachment_values uid (next_uuid w)) (enumerate (next_ulid w) atts)
                 \<and> eventAttachmentsTable w' = eventAttachmentsTable w @ rows
                 \<and> putObject_calls w' = putObject_calls w
                      @ map (putObject_for bucket) (zip rows atts))"
proof (cases "attachments input")
  case None
  then show ?thesis
    by (simp add: first_instance_block_def insert_events_def Let_def returned_instance_def
        instance_event_def)
next
  case (Some atts)
  with assms(1) have ne: "atts \<noteq> []" by auto
  show ?thesis
    using Some
    by (simp add: first_instance_block_def insert_events_def Let_def returned_instance_def
        instance_event_def persist_attachments_succeeds [OF ne assms(2)])
qed


lemma base_and_rule_written_tables:
  "eventsTable (base_and_rule_written uid input rec s ds w) =
     map (\<lambda>e. if event_id e = next_uuid w
               then e\<lparr>event_recurrenceRuleId := Some (Suc (next_uuid w))\<rparr> else e)
       (eventsTable w)
     @ [(base_event uid input (next_uuid w))\<lparr>event_recurrenceRuleId := Some (Suc (next_uuid w))\<rparr>]"
  "recurrenceRulesTable (base_and_rule_written uid input rec s ds w) =
     recurrenceRulesTable w @ [recurrence_rule uid input rec s ds (next_uuid w) (Suc (next_uuid w))]"
  "eventAttachmentsTable (base_and_rule_written uid input rec s ds w) = eventAttachmentsTable w"
  "putObject_calls (base_and_rule_written uid input rec s ds w) = putObject_calls w"
  "next_uuid (base_and_rule_written uid input rec s ds w) = Suc (Suc (next_uuid w))"
  "next_ulid (base_and_rule_written uid input rec s ds w) = next_ulid w"
  by (simp_all add: base_and_rule_written_def update_recurrenceRuleId_def
      insert_recurrenceRules_def insert_events_def Let_def base_event_def)

lemma recurring_block_expanded:
  assumes "generateRecurrenceRuleString (library env) (clock env)
             (rec\<lparr>recurrenceStartDate := Some (startAt input)\<rparr>) = Inr s"
    and "getRecurringInstanceDates (library env) (clock env) s (startAt input)
           (Some (case recurrenceEndDate rec of
                    Some e \<Rightarrow> e
                  | None \<Rightarrow> addYears (library env) (clock env) 1)) None = Inr ds"
  shows "recurring_block env bucket uid input rec w =
           (case ds of
              [] \<Rightarrow> (Inr None, base_and_rule_written uid input rec s ds w)
            | d # _ \<Rightarrow>
                (case first_instance_block env bucket uid input d (endAt input - startAt input)
                        (next_uuid w) (Suc (next_uuid w))
                        (base_and_rule_written uid input rec s ds w) of
                   (Inl e, w4) \<Rightarrow> (Inl e, w4)
                 | (Inr event, w4) \<Rightarrow> (Inr (Some event), w4)))"
  using assms
  by (simp add: recurring_block_def base_and_rule_written_def insert_events_def
      insert_recurrenceRules_def Let_def base_event_def recurrence_rule_def
      split: list.splits)

text \<open>
  C2. For a recurring request that passes authentication, validation and authorization,
  whose rule string is encoded and whose expansion yields at least one instant, with every
  write to the object store succeeding: the call succeeds; the events written are the base
  event and exactly one more row, the instance; the instance starts at the first expanded
  instant, ends that instant plus \<open>endAt - startAt\<close> of the input, is not a base
  event, and carries the ids of the base event and of the rule written by the call; and
  the instance, not the base event, is the row returned.
\<close>

theorem recurring_request_creates_first_instance:
  assumes auth: "currentClient ctx = Some uid"
    and valid: "argument_issues (eventAttachmentMimeTypeEnum env) input = []"
    and user: "List.find (\<lambda>u. user_id u = uid) (usersTable w) = Some u"
    and org: "List.find (\<lambda>org. organization_id org = organizationId input)
                (organizationsTable w) = Some org"
    and allowed: "user_role u = administrator
         \<or> (\<exists>m. currentUserOrganizationMembership uid org w = Some m
                 \<and> membership_role m = administrator)"
    and rec: "recurrence input = Some rec"
    and enc: "generateRecurrenceRuleString (library env) (clock env)
                (rec\<lparr>recurrenceStartDate := Some (startAt input)\<rparr>) = Inr s"
    and exp: "getRecurringInstanceDates (library env) (clock env) s (startAt input)
                (Some (case recurrenceEndDate rec of
                         Some e \<Rightarrow> e
                       | None \<Rightarrow> addYears (library env) (clock env) 1)) None = Inr (d # ds)"
    and atts: "attachments input \<noteq> Some []"
    and puts: "\<And>c. putObject_succeeds env c"
  shows "\<exists>ev w' base rule.
           createEvent env ctx input w = (Inr ev, w')
         \<and> created_events w w' = [base, Event_row ev]
         \<and> created_rules w w' = [rule]
         \<and> event_isBaseRecurringEvent base
         \<and> event_startAt (Event_row ev) = d
         \<and> event_endAt (Event_row ev) = d + (endAt input - startAt input)
         \<and> \<not> event_isBaseRecurringEvent (Event_row ev)
         \<and> event_baseRecurringEventId (Event_row ev) = Some (event_id base)
         \<and> event_recurrenceRuleId (Event_row ev) = Some (rule_id rule)
         \<and> event_id (Event_row ev) \<noteq> event_id base"
proof -
  let ?w3 = "base_and_rule_written uid input rec s (d # ds) w"
  let ?inst = "instance_event uid input d (endAt input - startAt input) (next_uuid w)
                 (Suc (next_uuid w)) (next_uuid ?w3)"
  obtain rows w4 where
    fi: "first_instance_block env (bucketName ctx) uid input d (endAt input - startAt input)
           (next_uuid w) (Suc (next_uuid w)) ?w3
         = (Inr \<lparr> Event_row = ?inst, Event_attachments = rows \<rparr>, w4)"
    and ev: "eventsTable w4 = eventsTable ?w3 @ [?inst]"
    and ru: "recurrenceRulesTable w4 = recurrenceRulesTable ?w3"
    using first_instance_block_result [OF atts puts, of "bucketName ctx" uid d
        "endAt input - startAt input" "next_uuid w" "Suc (next_uuid w)" ?w3]
    by blast
  have rb: "recurring_block env (bucketName ctx) uid input rec w
              = (Inr (Some \<lparr> Event_row = ?inst, Event_attachments = rows \<rparr>), w4)"
    using recurring_block_expanded [OF enc exp] fi by simp
  have ce: "createEvent env ctx input w
              = (Inr \<lparr> Event_row = ?inst, Event_attachments = rows \<rparr>, w4)"
    using createEvent_reaches_transaction [OF auth valid user org allowed] rec rb
    by (simp add: transaction_def transaction_body_def)
  let ?base = "(base_event uid input (next_uuid w))
                 \<lparr>event_recurrenceRuleId := Some (Suc (next_uuid w))\<rparr>"
  let ?rule = "recurrence_rule uid input rec s (d # ds) (next_uuid w) (Suc (next_uuid w))"
  have "createEvent env ctx input w = (Inr \<lparr> Event_row = ?inst, Event_attachments = rows \<rparr>, w4)
      \<and> created_events w w4 = [?base, ?inst]
      \<and> created_rules w w4 = [?rule]
      \<and> event_isBaseRecurringEvent ?base
      \<and> event_startAt ?inst = d
      \<and> event_endAt ?inst = d + (endAt input - startAt input)
      \<and> \<not> event_isBaseRecurringEvent ?inst
      \<and> event_baseRecurringEventId ?inst = Some (event_id ?base)
      \<and> event_recurrenceRuleId ?inst = Some (rule_id ?rule)
      \<and> event_id ?inst \<noteq> event_id ?base"
    using ce
    by (simp add: created_events_def created_rules_def ev ru base_and_rule_written_tables
        instance_event_def base_event_def recurrence_rule_def)
  then show ?thesis
    by (metis Event.select_convs(1))
qed


lemma example_user_2:
  "List.find (\<lambda>u. user_id u = 2) (usersTable example_world)
     = Some \<lparr>user_id = 2, user_role = regular\<rparr>"
  by (simp add: example_world_def)

lemma example_organization:
  "organizationId input = 10 \<Longrightarrow>
     List.find (\<lambda>org. organization_id org = organizationId input)
       (organizationsTable example_world) = Some \<lparr>organization_id = 10\<rparr>"
  by (simp add: example_world_def)

lemma example_membership_2:
  "currentUserOrganizationMembership 2 \<lparr>organization_id = 10\<rparr> example_world
     = Some \<lparr>membership_organizationId = 10, membership_memberId = 2,
              membership_role = administrator\<rparr>"
  by (simp add: currentUserOrganizationMembership_def example_world_def)

lemma example_rule_string:
  "generateRecurrenceRuleString (library (example_environment occs))
       (clock (example_environment occs))
       (\<lparr> frequency = DAILY, interval = Some 1, recurrenceStartDate = None,
          recurrenceEndDate = None, count = Some 3,
          byDay = None, byMonth = None, byMonthDay = None \<rparr>
        \<lparr>recurrenceStartDate := Some 1704880800000\<rparr>)
     = Inr (''DTSTART:20240110T100000Z'' @ [CHR 0x0A] @ ''RRULE:FREQ=DAILY;INTERVAL=1;COUNT=3'')"
  unfolding generateRecurrenceRuleString_def fixed_library_def years_of_365_days_def example_environment_def
  by (simp, code_simp)

lemma example_expansion:
  "getRecurringInstanceDates (library (example_environment standup_days))
       (clock (example_environment standup_days)) s 1704880800000
       (Some (addYears (library (example_environment standup_days))
                (clock (example_environment standup_days)) 1)) None
     = Inr (1704880800000 # [1704967200000, 1705053600000])"
  by (simp add: getRecurringInstanceDates_def example_environment_def fixed_library_def years_of_365_days_def
      standup_days_def)

theorem recurring_request_creates_first_instance_witness:
  "\<exists>ev w'. createEvent (example_environment standup_days) (client 2)
              (daily_standup None (Some 3)) example_world = (Inr ev, w')
           \<and> length (created_events example_world w') = 2
           \<and> event_startAt (Event_row ev) = 1704880800000
           \<and> event_endAt (Event_row ev) = 1704884400000"
proof -
  have auth: "currentClient (client 2) = Some 2"
    by (simp add: client_def)
  have valid: "argument_issues (eventAttachmentMimeTypeEnum (example_environment standup_days))
                 (daily_standup None (Some 3)) = []"
    by (simp add: argument_issues_def daily_standup_def)
  have allowed: "user_role \<lparr>user_id = 2, user_role = regular\<rparr> = administrator
      \<or> (\<exists>m. currentUserOrganizationMembership 2 \<lparr>organization_id = 10\<rparr> example_world = Some m
              \<and> membership_role m = administrator)"
    by (simp add: example_membership_2)
  have rec: "recurrence (daily_standup None (Some 3))
      = Some \<lparr> frequency = DAILY, interval = Some 1, recurrenceStartDate = None,
          recurrenceEndDate = None, count = Some 3,
          byDay = None, byMonth = None, byMonthDay = None \<rparr>"
    by (simp add: daily_standup_def)
  have enc: "generateRecurrenceRuleString (library (example_environment standup_days))
       (clock (example_environment standup_days))
       (\<lparr> frequency = DAILY, interval = Some 1, recurrenceStartDate = None,
          recurrenceEndDate = None, count = Some 3,
          byDay = None, byMonth = None, byMonthDay = None \<rparr>
        \<lparr>recurrenceStartDate := Some (startAt (daily_standup None (Some 3)))\<rparr>)
     = Inr (''DTSTART:20240110T100000Z'' @ [CHR 0x0A] @ ''RRULE:FREQ=DAILY;INTERVAL=1;COUNT=3'')"
    using example_rule_string [of standup_days] by (simp add: daily_standup_def)
  have exp: "getRecurringInstanceDates (library (example_environment standup_days))
       (clock (example_environment standup_days))
       (''DTSTART:20240110T100000Z'' @ [CHR 0x0A] @ ''RRULE:FREQ=DAILY;INTERVAL=1;COUNT=3'')
       (startAt (daily_standup None (Some 3)))
       (Some (case recurrenceEndDate \<lparr> frequency = DAILY, interval = Some 1,
                     recurrenceStartDate = None, recurrenceEndDate = None, count = Some 3,
                     byDay = None, byMonth = None, byMonthDay = None \<rparr> of
                Some e \<Rightarrow> e
              | None \<Rightarrow> addYears (library (example_environment standup_days))
                         (clock (example_environment standup_days)) 1)) None
     = Inr (1704880800000 # [1704967200000, 1705053600000])"
    using example_expansion by (simp add: daily_standup_def)
  have atts: "attachments (daily_standup None (Some 3)) \<noteq> Some []"
    by (simp add: daily_standup_def)
  have puts: "\<And>c. putObject_succeeds (example_environment standup_days) c"
    by (simp add: example_environment_def)
  have org: "List.find (\<lambda>org. organization_id org = organizationId (daily_standup None (Some 3)))
               (organizationsTable example_world) = Some \<lparr>organization_id = 10\<rparr>"
    by (rule example_organization) (simp add: daily_standup_def)
  from recurring_request_creates_first_instance
         [OF auth valid example_user_2 org allowed rec enc exp atts puts]
  show ?thesis
    by (auto simp add: daily_standup_def)
qed


text \<open>
  C9. On the recurring path with at least one expanded instant and a non-empty attachment
  list: the attachment rows written are the ones returned, one per upload; each names the
  returned first instance, not the base event, as its event; and the writes to the object
  store are one per row, in order, with the row's name as the object name, the row's media
  type as the content type and the upload's stream as the body.
\<close>

theorem recurring_attachments_belong_to_first_instance:
  assumes auth: "currentClient ctx = Some uid"
    and valid: "argument_issues (eventAttachmentMimeTypeEnum env) input = []"
    and user: "List.find (\<lambda>u. user_id u = uid) (usersTable w) = Some u"
    and org: "List.find (\<lambda>org. organization_id org = organizationId input)
                (organizationsTable w) = Some org"
    and allowed: "user_role u = administrator
         \<or> (\<exists>m. currentUserOrganizationMembership uid org w = Some m
                 \<and> membership_role m = administrator)"
    and rec: "recurrence input = Some rec"
    and enc: "generateRecurrenceRuleString (library env) (clock env)
                (rec\<lparr>recurrenceStartDate := Some (startAt input)\<rparr>) = Inr s"
    and exp: "getRecurringInstanceDates (library env) (clock env) s (startAt input)
                (Some (case recurrenceEndDate rec of
                         Some e \<Rightarrow> e
                       | None \<Rightarrow> addYears (library env) (clock env) 1)) None = Inr (d # ds)"
    and supplied: "attachments input = Some atts"
    and nonempty: "atts \<noteq> []"
    and puts: "\<And>c. putObject_succeeds env c"
  shows "\<exists>ev w' base.
           createEvent env ctx input w = (Inr ev, w')
         \<and> created_events w w' = [base, Event_row ev]
         \<and> event_isBaseRecurringEvent base
         \<and> created_attachments w w' = Event_attachments ev
         \<and> length (Event_attachments ev) = length atts
         \<and> (\<forall>row \<in> set (Event_attachments ev).
               attachment_eventId row = event_id (Event_row ev)
               \<and> attachment_eventId row \<noteq> event_id base)
         \<and> issued_writes w w' = map (putObject_for (bucketName ctx)) (zip (Event_attachments ev) atts)
         \<and> length (issued_writes w w') = length (Event_attachments ev)
         \<and> (\<forall>i < length (Event_attachments ev).
               put_objectName (issued_writes w w' ! i) = attachment_name (Event_attachments ev ! i)
               \<and> put_content_type (issued_writes w w' ! i)
                   = attachment_mimeType (Event_attachments ev ! i)
               \<and> put_stream (issued_writes w w' ! i) = createReadStream (atts ! i))"
proof -
  let ?w3 = "base_and_rule_written uid input rec s (d # ds) w"
  let ?inst = "instance_event uid input d (endAt input - startAt input) (next_uuid w)
                 (Suc (next_uuid w)) (next_uuid ?w3)"
  let ?rows = "map (attachment_values uid (next_uuid ?w3)) (enumerate (next_ulid ?w3) atts)"
  have atts: "attachments input \<noteq> Some []"
    using supplied nonempty by simp
  obtain rows w4 where
    fi: "first_instance_block env (bucketName ctx) uid input d (endAt input - startAt input)
           (next_uuid w) (Suc (next_uuid w)) ?w3
         = (Inr \<lparr> Event_row = ?inst, Event_attachments = rows \<rparr>, w4)"
    and ev: "eventsTable w4 = eventsTable ?w3 @ [?inst]"
    and at: "case attachments input of
               None \<Rightarrow> rows = [] \<and> eventAttachmentsTable w4 = eventAttachmentsTable ?w3
                        \<and> putObject_calls w4 = putObject_calls ?w3
             | Some atts \<Rightarrow>
                 rows = map (attachment_values uid (next_uuid ?w3)) (enumerate (next_ulid ?w3) atts)
                 \<and> eventAttachmentsTable w4 = eventAttachmentsTable ?w3 @ rows
                 \<and> putObject_calls w4 = putObject_calls ?w3
                      @ map (putObject_for (bucketName ctx)) (zip rows atts)"
    using first_instance_block_result [OF atts puts, of "bucketName ctx" uid d
        "endAt input - startAt input" "next_uuid w" "Suc (next_uuid w)" ?w3]
    by blast
  from at supplied have rows: "rows = ?rows"
    and tab: "eventAttachmentsTable w4 = eventAttachmentsTable ?w3 @ rows"
    and calls: "putObject_calls w4 = putObject_calls ?w3
                  @ map (putObject_for (bucketName ctx)) (zip rows atts)"
    by simp_all
  have len: "length rows = length atts"
    by (simp add: rows)
  have rb: "recurring_block env (bucketName ctx) uid input rec w
              = (Inr (Some \<lparr> Event_row = ?inst, Event_attachments = rows \<rparr>), w4)"
    using recurring_block_expanded [OF enc exp] fi by simp
  have ce: "createEvent env ctx input w
              = (Inr \<lparr> Event_row = ?inst, Event_attachments = rows \<rparr>, w4)"
    using createEvent_reaches_transaction [OF auth valid user org allowed] rec rb
    by (simp add: transaction_def transaction_body_def)
  let ?base = "(base_event uid input (next_uuid w))
                 \<lparr>event_recurrenceRuleId := Some (Suc (next_uuid w))\<rparr>"
  have owner: "\<forall>row \<in> set rows. attachment_eventId row = event_id ?inst
                 \<and> attachment_eventId row \<noteq> event_id ?base"
    by (auto simp add: rows attachment_values_def instance_event_def base_event_def
        base_and_rule_written_tables)
  have writes: "issued_writes w w4 = map (putObject_for (bucketName ctx)) (zip rows atts)"
    by (simp add: issued_writes_def calls base_and_rule_written_tables)
  have each: "\<forall>i < length rows.
               put_objectName (issued_writes w w4 ! i) = attachment_name (rows ! i)
               \<and> put_content_type (issued_writes w w4 ! i) = attachment_mimeType (rows ! i)
               \<and> put_stream (issued_writes w w4 ! i) = createReadStream (atts ! i)"
    by (simp add: writes len putObject_for_def)
  have "createEvent env ctx input w = (Inr \<lparr> Event_row = ?inst, Event_attachments = rows \<rparr>, w4)
      \<and> created_events w w4 = [?base, ?inst]
      \<and> event_isBaseRecurringEvent ?base
      \<and> created_attachments w w4 = rows
      \<and> length rows = length atts"
    using ce len
    by (simp add: created_events_def created_attachments_def ev tab
        base_and_rule_written_tables base_event_def)
  moreover have "event_id ?inst \<noteq> event_id ?base"
    by (simp add: instance_event_def base_event_def base_and_rule_written_tables)
  ultimately show ?thesis
    using owner writes each len
    by (intro exI [of _ "\<lparr> Event_row = ?inst, Event_attachments = rows \<rparr>"] exI [of _ w4]
        exI [of _ ?base]) simp
qed


theorem recurring_attachments_belong_to_first_instance_witness:
  "\<exists>ev w'. createEvent (example_environment standup_days) (client 2)
              ((daily_standup None (Some 3))\<lparr>attachments := Some two_uploads\<rparr>) example_world
              = (Inr ev, w')
           \<and> length (Event_attachments ev) = 2
           \<and> issued_writes example_world w'
               = map (putObject_for ''talawa'') (zip (Event_attachments ev) two_uploads)"
proof -
  let ?input = "(daily_standup None (Some 3))\<lparr>attachments := Some two_uploads\<rparr>"
  let ?env = "example_environment standup_days"
  let ?rec = "\<lparr> frequency = DAILY, interval = Some 1, recurrenceStartDate = None,
          recurrenceEndDate = None, count = Some 3,
          byDay = None, byMonth = None, byMonthDay = None \<rparr>"
  let ?s = "''DTSTART:20240110T100000Z'' @ [CHR 0x0A] @ ''RRULE:FREQ=DAILY;INTERVAL=1;COUNT=3''"
  have auth: "currentClient (client 2) = Some 2"
    by (simp add: client_def)
  have valid: "argument_issues (eventAttachmentMimeTypeEnum ?env) ?input = []"
    by (simp add: argument_issues_def mimetype_issues_def daily_standup_def two_uploads_def
        example_environment_def upt_rec)
  have org: "List.find (\<lambda>org. organization_id org = organizationId ?input)
               (organizationsTable example_world) = Some \<lparr>organization_id = 10\<rparr>"
    by (rule example_organization) (simp add: daily_standup_def)
  have allowed: "user_role \<lparr>user_id = 2, user_role = regular\<rparr> = administrator
      \<or> (\<exists>m. currentUserOrganizationMembership 2 \<lparr>organization_id = 10\<rparr> example_world = Some m
              \<and> membership_role m = administrator)"
    by (simp add: example_membership_2)
  have rec: "recurrence ?input = Some ?rec"
    by (simp add: daily_standup_def)
  have enc: "generateRecurrenceRuleString (library ?env) (clock ?env)
       (?rec\<lparr>recurrenceStartDate := Some (startAt ?input)\<rparr>) = Inr ?s"
    using example_rule_string [of standup_days] by (simp add: daily_standup_def)
  have exp: "getRecurringInstanceDates (library ?env) (clock ?env) ?s (startAt ?input)
       (Some (case recurrenceEndDate ?rec of
                Some e \<Rightarrow> e
              | None \<Rightarrow> addYears (library ?env) (clock ?env) 1)) None
     = Inr (1704880800000 # [1704967200000, 1705053600000])"
    using example_expansion by (simp add: daily_standup_def)
  have supplied: "attachments ?input = Some two_uploads"
    by simp
  have nonempty: "two_uploads \<noteq> []"
    by (simp add: two_uploads_def)
  have puts: "\<And>c. putObject_succeeds ?env c"
    by (simp add: example_environment_def)
  from recurring_attachments_belong_to_first_instance
         [OF auth valid example_user_2 org allowed rec enc exp supplied nonempty puts]
  show ?thesis
    by (auto simp add: two_uploads_def client_def)
qed

text \<open>
  When the expansion is empty the block under \<open>if (isRecurring)\<close> is left without a
  return, and the statements for a simple event run after the base event and the rule
  have been written.
\<close>

lemma empty_expansion_falls_through:
  assumes auth: "currentClient ctx = Some uid"
    and valid: "argument_issues (eventAttachmentMimeTypeEnum env) input = []"
    and user: "List.find (\<lambda>u. user_id u = uid) (usersTable w) = Some u"
    and org: "List.find (\<lambda>org. organization_id org = organizationId input)
                (organizationsTable w) = Some org"
    and allowed: "user_role u = administrator
         \<or> (\<exists>m. currentUserOrganizationMembership uid org w = Some m
                 \<and> membership_role m = administrator)"
    and rec: "recurrence input = Some rec"
    and enc: "generateRecurrenceRuleString (library env) (clock env)
                (rec\<lparr>recurrenceStartDate := Some (startAt input)\<rparr>) = Inr s"
    and exp: "getRecurringInstanceDates (library env) (clock env) s (startAt input)
                (Some (case recurrenceEndDate rec of
                         Some e \<Rightarrow> e
                       | None \<Rightarrow> addYears (library env) (clock env) 1)) None = Inr []"
    and none: "attachments input = None"
  shows "fst (createEvent env ctx input w)
           = Inr \<lparr> Event_row = standalone_event uid input (Suc (Suc (next_uuid w))),
                   Event_attachments = [] \<rparr>"
    and "created_events w (snd (createEvent env ctx input w))
           = [(base_event uid input (next_uuid w))
                \<lparr>event_recurrenceRuleId := Some (Suc (next_uuid w))\<rparr>,
              standalone_event uid input (Suc (Suc (next_uuid w)))]"
    and "created_rules w (snd (createEvent env ctx input w))
           = [recurrence_rule uid input rec s [] (next_uuid w) (Suc (next_uuid w))]"
proof -
  let ?w3 = "base_and_rule_written uid input rec s [] w"
  have rb: "recurring_block env (bucketName ctx) uid input rec w = (Inr None, ?w3)"
    using recurring_block_expanded [OF enc exp] by simp
  have si: "simple_insert env (bucketName ctx) uid input ?w3
              = (Inr \<lparr> Event_row = standalone_event uid input (Suc (Suc (next_uuid w))),
                      Event_attachments = [] \<rparr>,
                 ?w3\<lparr> eventsTable := eventsTable ?w3
                          @ [standalone_event uid input (Suc (Suc (next_uuid w)))],
                       next_uuid := Suc (Suc (Suc (next_uuid w))) \<rparr>)"
    using none
    by (simp add: simple_insert_def insert_events_def Let_def base_and_rule_written_tables)
  have ce: "createEvent env ctx input w
              = (Inr \<lparr> Event_row = standalone_event uid input (Suc (Suc (next_uuid w))),
                      Event_attachments = [] \<rparr>,
                 ?w3\<lparr> eventsTable := eventsTable ?w3
                          @ [standalone_event uid input (Suc (Suc (next_uuid w)))],
                       next_uuid := Suc (Suc (Suc (next_uuid w))) \<rparr>)"
    using createEvent_reaches_transaction [OF auth valid user org allowed] rec rb si
    by (simp add: transaction_def transaction_body_def)
  show "fst (createEvent env ctx input w)
           = Inr \<lparr> Event_row = standalone_event uid input (Suc (Suc (next_uuid w))),
                   Event_attachments = [] \<rparr>"
    by (simp add: ce)
  show "created_events w (snd (createEvent env ctx input w))
           = [(base_event uid input (next_uuid w))
                \<lparr>event_recurrenceRuleId := Some (Suc (next_uuid w))\<rparr>,
              standalone_event uid input (Suc (Suc (next_uuid w)))]"
    by (simp add: ce created_events_def base_and_rule_written_tables base_event_def)
  show "created_rules w (snd (createEvent env ctx input w))
           = [recurrence_rule uid input rec s [] (next_uuid w) (Suc (next_uuid w))]"
    by (simp add: ce created_rules_def base_and_rule_written_tables)
qed

text \<open>
  C1, evaluated at a request whose recurrence ends (2024-01-01) before the event starts
  (2024-01-10), so that no instant is expanded. The call succeeds and the rule's
  \<open>latestInstanceDate\<close> is the start instant, but two event rows are written, not
  one: the base event and a second row with the same name and times that is neither
  recurring nor linked to the base event or the rule. That second row is returned.
\<close>

theorem empty_expansion_writes_a_second_event:
  "fst (createEvent (example_environment standup_days) (client 2)
          (daily_standup (Some 1704067200000) None) example_world)
     = Inr \<lparr> Event_row =
               \<lparr> event_id = 102, event_creatorId = Some 2, event_description = None,
                 event_name = ''Standup'', event_organizationId = 10,
                 event_startAt = 1704880800000, event_endAt = 1704884400000,
                 event_isRecurring = False, event_isBaseRecurringEvent = False,
                 event_baseRecurringEventId = None, event_recurrenceRuleId = None \<rparr>,
             Event_attachments = [] \<rparr>
   \<and> created_events example_world
       (snd (createEvent (example_environment standup_days) (client 2)
               (daily_standup (Some 1704067200000) None) example_world))
     = [\<lparr> event_id = 100, event_creatorId = Some 2, event_description = None,
          event_name = ''Standup'', event_organizationId = 10,
          event_startAt = 1704880800000, event_endAt = 1704884400000,
          event_isRecurring = True, event_isBaseRecurringEvent = True,
          event_baseRecurringEventId = None, event_recurrenceRuleId = Some 101 \<rparr>,
        \<lparr> event_id = 102, event_creatorId = Some 2, event_description = None,
          event_name = ''Standup'', event_organizationId = 10,
          event_startAt = 1704880800000, event_endAt = 1704884400000,
          event_isRecurring = False, event_isBaseRecurringEvent = False,
          event_baseRecurringEventId = None, event_recurrenceRuleId = None \<rparr>]
   \<and> map rule_latestInstanceDate
       (created_rules example_world
          (snd (createEvent (example_environment standup_days) (client 2)
                  (daily_standup (Some 1704067200000) None) example_world)))
     = [1704880800000]"
proof -
  let ?input = "daily_standup (Some 1704067200000) None"
  let ?env = "example_environment standup_days"
  let ?rec = "\<lparr> frequency = DAILY, interval = Some 1, recurrenceStartDate = None,
          recurrenceEndDate = Some 1704067200000, count = None,
          byDay = None, byMonth = None, byMonthDay = None \<rparr>"
  let ?s = "''DTSTART:20240110T100000Z'' @ [CHR 0x0A]
            @ ''RRULE:FREQ=DAILY;INTERVAL=1;UNTIL=20240101T000000Z''"
  have auth: "currentClient (client 2) = Some 2"
    by (simp add: client_def)
  have valid: "argument_issues (eventAttachmentMimeTypeEnum ?env) ?input = []"
    by (simp add: argument_issues_def daily_standup_def)
  have org: "List.find (\<lambda>org. organization_id org = organizationId ?input)
               (organizationsTable example_world) = Some \<lparr>organization_id = 10\<rparr>"
    by (rule example_organization) (simp add: daily_standup_def)
  have allowed: "user_role \<lparr>user_id = 2, user_role = regular\<rparr> = administrator
      \<or> (\<exists>m. currentUserOrganizationMembership 2 \<lparr>organization_id = 10\<rparr> example_world = Some m
              \<and> membership_role m = administrator)"
    by (simp add: example_membership_2)
  have rec: "recurrence ?input = Some ?rec"
    by (simp add: daily_standup_def)
  have "generateRecurrenceRuleString (fixed_library standup_days) 1735689600000
       (?rec\<lparr>recurrenceStartDate := Some 1704880800000\<rparr>) = Inr ?s"
    unfolding generateRecurrenceRuleString_def fixed_library_def years_of_365_days_def
    by (simp, code_simp)
  then have enc: "generateRecurrenceRuleString (library ?env) (clock ?env)
       (?rec\<lparr>recurrenceStartDate := Some (startAt ?input)\<rparr>) = Inr ?s"
    by (simp add: daily_standup_def example_environment_def)
  have exp: "getRecurringInstanceDates (library ?env) (clock ?env) ?s (startAt ?input)
       (Some (case recurrenceEndDate ?rec of
                Some e \<Rightarrow> e
              | None \<Rightarrow> addYears (library ?env) (clock ?env) 1)) None
     = Inr []"
    by (simp add: getRecurringInstanceDates_def example_environment_def fixed_library_def years_of_365_days_def
        standup_days_def daily_standup_def)
  have none: "attachments ?input = None"
    by (simp add: daily_standup_def)
  note ft = empty_expansion_falls_through
              [OF auth valid example_user_2 org allowed rec enc exp none]
  show ?thesis
    unfolding ft
    by (simp add: standalone_event_def base_event_def recurrence_rule_def daily_standup_def
        example_world_def)
qed


text \<open>
  C7. For a request by an authenticated client whose arguments pass validation and whose
  user record exists: if the organization exists, the user's role is not administrator and
  the user's membership in that organization is absent or not an administrator membership,
  the call fails with \<open>unauthorized_action_on_arguments_associated_resources\<close> and
  changes nothing; if the organization exists and the user's role is administrator, the
  resolver proceeds to the transaction whatever the membership; if the organization does
  not exist, the call fails with \<open>arguments_associated_resources_not_found\<close>.
\<close>

theorem authorization_boundary:
  assumes auth: "currentClient ctx = Some uid"
    and valid: "argument_issues (eventAttachmentMimeTypeEnum env) input = []"
    and user: "List.find (\<lambda>u. user_id u = uid) (usersTable w) = Some u"
  shows "(List.find (\<lambda>org. organization_id org = organizationId input) (organizationsTable w)
            = Some org
          \<and> user_role u \<noteq> administrator
          \<and> (currentUserOrganizationMembership uid org w = None
               \<or> (\<exists>m. currentUserOrganizationMembership uid org w = Some m
                       \<and> membership_role m \<noteq> administrator))
          \<longrightarrow> createEvent env ctx input w
                = (Inl (unauthorized_action_on_arguments_associated_resources
                          [\<lparr> argumentPath = [Key ''input'', Key ''organizationId''],
                             message = None \<rparr>]), w))
       \<and> (List.find (\<lambda>org. organization_id org = organizationId input) (organizationsTable w)
            = Some org
          \<and> user_role u = administrator
          \<longrightarrow> createEvent env ctx input w
                = transaction (transaction_body env (bucketName ctx) uid input) w)
       \<and> (List.find (\<lambda>org. organization_id org = organizationId input) (organizationsTable w)
            = None
          \<longrightarrow> createEvent env ctx input w
                = (Inl (arguments_associated_resources_not_found
                          [\<lparr> argumentPath = [Key ''input'', Key ''organizationId''],
                             message = None \<rparr>]), w))"
  using assms by (auto simp add: createEvent_def)

lemma example_user_3:
  "List.find (\<lambda>u. user_id u = 3) (usersTable example_world)
     = Some \<lparr>user_id = 3, user_role = regular\<rparr>"
  by (simp add: example_world_def)

lemma example_user_1:
  "List.find (\<lambda>u. user_id u = 1) (usersTable example_world)
     = Some \<lparr>user_id = 1, user_role = administrator\<rparr>"
  by (simp add: example_world_def)

theorem authorization_boundary_witness:
  "createEvent (example_environment standup_days) (client 3) (daily_standup None (Some 3))
       example_world
     = (Inl (unauthorized_action_on_arguments_associated_resources
               [\<lparr> argumentPath = [Key ''input'', Key ''organizationId''], message = None \<rparr>]),
        example_world)
   \<and> createEvent (example_environment standup_days) (client 1) (daily_standup None (Some 3))
       example_world
     = transaction (transaction_body (example_environment standup_days) ''talawa'' 1
                      (daily_standup None (Some 3))) example_world
   \<and> createEvent (example_environment standup_days) (client 1)
       ((daily_standup None (Some 3))\<lparr>organizationId := 12\<rparr>) example_world
     = (Inl (arguments_associated_resources_not_found
               [\<lparr> argumentPath = [Key ''input'', Key ''organizationId''], message = None \<rparr>]),
        example_world)"
proof -
  let ?env = "example_environment standup_days"
  let ?input = "daily_standup None (Some 3)"
  have auth3: "currentClient (client 3) = Some 3" and auth1: "currentClient (client 1) = Some 1"
    by (simp_all add: client_def)
  have valid: "\<And>n. argument_issues (eventAttachmentMimeTypeEnum ?env)
                      (?input\<lparr>organizationId := n\<rparr>) = []"
    by (simp add: argument_issues_def daily_standup_def)
  have valid0: "argument_issues (eventAttachmentMimeTypeEnum ?env) ?input = []"
    by (simp add: argument_issues_def daily_standup_def)
  have org10: "List.find (\<lambda>org. organization_id org = organizationId ?input)
                 (organizationsTable example_world) = Some \<lparr>organization_id = 10\<rparr>"
    by (simp add: example_world_def daily_standup_def)
  have org12: "List.find (\<lambda>org. organization_id org
                              = organizationId (?input\<lparr>organizationId := 12\<rparr>))
                 (organizationsTable example_world) = None"
    by (simp add: example_world_def)
  have m3: "currentUserOrganizationMembership 3 \<lparr>organization_id = 10\<rparr> example_world
              = Some \<lparr>membership_organizationId = 10, membership_memberId = 3,
                       membership_role = regular\<rparr>"
    by (simp add: currentUserOrganizationMembership_def example_world_def)
  have a: "createEvent ?env (client 3) ?input example_world
     = (Inl (unauthorized_action_on_arguments_associated_resources
               [\<lparr> argumentPath = [Key ''input'', Key ''organizationId''], message = None \<rparr>]),
        example_world)"
    using authorization_boundary [OF auth3 valid0 example_user_3,
        of "\<lparr>organization_id = 10\<rparr>"] org10 m3
    by simp
  have b: "createEvent ?env (client 1) ?input example_world
     = transaction (transaction_body ?env ''talawa'' 1 ?input) example_world"
    using authorization_boundary [OF auth1 valid0 example_user_1,
        of "\<lparr>organization_id = 10\<rparr>"] org10
    by (simp add: client_def)
  have c: "createEvent ?env (client 1) (?input\<lparr>organizationId := 12\<rparr>) example_world
     = (Inl (arguments_associated_resources_not_found
               [\<lparr> argumentPath = [Key ''input'', Key ''organizationId''], message = None \<rparr>]),
        example_world)"
    using authorization_boundary [OF auth1 valid [of 12] example_user_1] org12
    by simp
  from a b c show ?thesis by simp
qed

lemma filter_upt_single:
  assumes "i < n" and "P i" and "\<forall>j < n. j \<noteq> i \<longrightarrow> \<not> P j"
  shows "filter P [0..<n] = [i]"
proof -
  have split: "[0..<n] = [0..<i] @ i # [Suc i..<n]"
    using assms(1) by (metis less_imp_le_nat upt_add_eq_append upt_conv_Cons le0 le_add_diff_inverse)
  have "filter P [0..<i] = []" and "filter P [Suc i..<n] = []"
    using assms by (auto simp add: filter_empty_conv)
  with split assms(2) show ?thesis by simp
qed

text \<open>
  C8. If exactly one upload of the attachment list, the one at index \<open>i\<close>, has a
  media type outside the allow-list, the call of an authenticated client fails with
  \<open>invalid_arguments\<close> carrying exactly one issue; its path is
  \<open>input, attachments, i\<close> and its message names the rejected media type. No issue is
  reported for the other uploads, and nothing is written.
\<close>

theorem single_disallowed_attachment_is_reported:
  assumes auth: "currentClient ctx = Some uid"
    and supplied: "attachments input = Some atts"
    and index: "i < length atts"
    and bad: "mimetype (atts ! i) \<notin> set (eventAttachmentMimeTypeEnum env)"
    and others: "\<forall>j < length atts. j \<noteq> i
                    \<longrightarrow> mimetype (atts ! j) \<in> set (eventAttachmentMimeTypeEnum env)"
  shows \<open>createEvent env ctx input w
           = (Inl (invalid_arguments
                     [\<lparr> argumentPath = [Key ''input'', Key ''attachments'', Index i],
                        message = Some (''Mime type "'' @ mimetype (atts ! i)
                                        @ ''" is not allowed.'') \<rparr>]), w)\<close>
proof -
  have "filter (\<lambda>j. mimetype (atts ! j) \<notin> set (eventAttachmentMimeTypeEnum env))
          [0..<length atts] = [i]"
    by (rule filter_upt_single) (use index bad others in auto)
  then show ?thesis
    using auth supplied
    by (simp add: createEvent_def argument_issues_def mimetype_issues_def)
qed

theorem single_disallowed_attachment_is_reported_witness:
  \<open>createEvent (example_environment standup_days) (client 2)
       ((daily_standup None (Some 3))
          \<lparr>attachments := Some [\<lparr>mimetype = ''image/png'', createReadStream = ''a''\<rparr>,
                                 \<lparr>mimetype = ''text/html'', createReadStream = ''b''\<rparr>,
                                 \<lparr>mimetype = ''video/mp4'', createReadStream = ''c''\<rparr>]\<rparr>)
       example_world
     = (Inl (invalid_arguments
               [\<lparr> argumentPath = [Key ''input'', Key ''attachments'', Index 1],
                  message = Some ''Mime type "text/html" is not allowed.'' \<rparr>]),
        example_world)\<close>
proof -
  let ?atts = "[\<lparr>mimetype = ''image/png'', createReadStream = ''a''\<rparr>,
                \<lparr>mimetype = ''text/html'', createReadStream = ''b''\<rparr>,
                \<lparr>mimetype = ''video/mp4'', createReadStream = ''c''\<rparr>]"
  let ?input = "(daily_standup None (Some 3))\<lparr>attachments := Some ?atts\<rparr>"
  let ?env = "example_environment standup_days"
  have auth: "currentClient (client 2) = Some 2"
    by (simp add: client_def)
  have supplied: "attachments ?input = Some ?atts"
    by simp
  have index: "1 < length ?atts"
    by simp
  have bad: "mimetype (?atts ! 1) \<notin> set (eventAttachmentMimeTypeEnum ?env)"
    by (simp add: example_environment_def)
  have others: "\<forall>j < length ?atts. j \<noteq> 1
                  \<longrightarrow> mimetype (?atts ! j) \<in> set (eventAttachmentMimeTypeEnum ?env)"
    by (simp add: example_environment_def less_Suc_eq nth_Cons')
  from single_disallowed_attachment_is_reported [OF auth supplied index bad others]
  show ?thesis
    by simp
qed

text \<open>
  C3. For a recurrence with an occurrence count and no end date, the expansion is what the
  rule yields between the start and one year after the time of the call, whatever the
  count: both when the helper is called without an end date and when the resolver passes
  its own default. Provided \<open>between\<close> keeps to the window it is given, every instant
  returned lies within one year from the time of the call.
\<close>

theorem expansion_stops_at_one_year_horizon:
  assumes window: "\<And>rule a b. \<forall>d \<in> set (between lib rule a b True). a \<le> d \<and> d \<le> b"
    and counted: "count r = Some c"
    and no_end: "recurrenceEndDate r = None"
  shows "(getRecurringInstanceDates lib now s start (recurrenceEndDate r) None = Inr ds
          \<longrightarrow> (\<exists>rule. rrulestr lib s = Inr rule
                       \<and> ds = between lib rule start (addYears lib now 1) True)
              \<and> (\<forall>d \<in> set ds. start \<le> d \<and> d \<le> addYears lib now 1))
       \<and> (getRecurringInstanceDates lib now s start
             (Some (case recurrenceEndDate r of
                      Some e \<Rightarrow> e
                    | None \<Rightarrow> addYears lib now 1)) None = Inr ds
          \<longrightarrow> (\<exists>rule. rrulestr lib s = Inr rule
                       \<and> ds = between lib rule start (addYears lib now 1) True)
              \<and> (\<forall>d \<in> set ds. start \<le> d \<and> d \<le> addYears lib now 1))"
  using window no_end
  by (auto simp add: getRecurringInstanceDates_def split: sum.splits)


lemma weekly_window:
  "getRecurringInstanceDates (fixed_library (weekly_from_2025 500)) 1735689600000 s
       1735689600000 None None
     = Inr (weekly_from_2025 53)"
  unfolding getRecurringInstanceDates_def fixed_library_def years_of_365_days_def weekly_from_2025_def
  by (simp, code_simp)

theorem expansion_stops_at_one_year_horizon_witness:
  "getRecurringInstanceDates (fixed_library (weekly_from_2025 500)) 1735689600000
       ''RRULE:FREQ=WEEKLY;COUNT=500'' 1735689600000 None None
     = Inr (weekly_from_2025 53)
   \<and> list_all (\<lambda>d. d \<le> 1767225600000) (weekly_from_2025 53)
   \<and> length (weekly_from_2025 53) = 53"
proof -
  let ?lib = "fixed_library (weekly_from_2025 500)"
  let ?r = "\<lparr> frequency = WEEKLY, interval = Some 1, recurrenceStartDate = None,
              recurrenceEndDate = None, count = Some 500, byDay = None, byMonth = None,
              byMonthDay = None \<rparr>"
  have window: "\<And>rule a b. \<forall>d \<in> set (between ?lib rule a b True). a \<le> d \<and> d \<le> b"
    by (simp add: fixed_library_def years_of_365_days_def)
  have counted: "count ?r = Some 500" and no_end: "recurrenceEndDate ?r = None"
    by simp_all
  have run: "getRecurringInstanceDates ?lib 1735689600000 ''RRULE:FREQ=WEEKLY;COUNT=500''
               1735689600000
               (recurrenceEndDate ?r) None = Inr (weekly_from_2025 53)"
    using weekly_window by simp
  from expansion_stops_at_one_year_horizon [OF window counted no_end,
         of 1735689600000 "''RRULE:FREQ=WEEKLY;COUNT=500''" 1735689600000 "weekly_from_2025 53"] run
  have "\<forall>d \<in> set (weekly_from_2025 53). d \<le> addYears ?lib 1735689600000 1"
    by simp
  then have "list_all (\<lambda>d. d \<le> 1767225600000) (weekly_from_2025 53)"
    by (simp add: list_all_iff fixed_library_def years_of_365_days_def)
  with run show ?thesis
    by (simp add: weekly_from_2025_def)
qed


section \<open>The weekly scenario\<close>

lemma scenario_encoded:
  "generateRecurrenceRuleString (rrule_model add_years) now scenario_input = Inr scenario_string"
  unfolding generateRecurrenceRuleString_def rrule_model_def scenario_input_def
    scenario_string_def
  by (simp, code_simp)

lemma scenario_parsed: "spec_rrulestr scenario_string = Inr scenario_rule"
  unfolding scenario_string_def scenario_rule_def
  by code_simp

lemma scenario_first_twelve_days:
  "filter (\<lambda>k. day_matches scenario_rule (dtstart scenario_rule div 86400000 + int k)) [0..<12]
     = [0, 2, 4, 7, 9, 11]"
  unfolding scenario_rule_def
  by code_simp

lemma scenario_occurrences:
  assumes "1705017600000 \<le> limit"
  shows "occurrences_until scenario_rule limit
           = [1704067200000, 1704240000000, 1704412800000, 1704672000000, 1704844800000,
              1705017600000]"
proof -
  define days where "days = nat ((limit - 1704067200000) div 86400000) + 1"
  have "(1705017600000 - 1704067200000) div 86400000 \<le> (limit - 1704067200000) div 86400000"
    using assms by (intro zdiv_mono1) simp_all
  then have "12 \<le> days"
    by (simp add: days_def)
  then have split: "[0..<days] = [0..<12] @ [12..<days]"
    by (metis le0 le_add_diff_inverse upt_add_eq_append)
  have "take 6 (filter (\<lambda>k. day_matches scenario_rule
                               (dtstart scenario_rule div 86400000 + int k)) [0..<days])
          = [0, 2, 4, 7, 9, 11]"
    by (simp only: split filter_append scenario_first_twelve_days) simp
  moreover have "rr_count scenario_rule = Some 6" "until scenario_rule = None"
    "dtstart scenario_rule = 1704067200000"
    by (simp_all add: scenario_rule_def)
  ultimately show ?thesis
    using assms by (simp add: occurrences_until_def days_def Let_def)
qed

text \<open>
  C4. For \<open>frequency = WEEKLY\<close>, \<open>interval = 1\<close>, \<open>byDay = [MO, WE, FR]\<close>, start
  2024-01-01 00:00 UTC (a Monday) and \<open>count = 6\<close>, the input is encoded to the rule
  string of the scenario, and expanding that string from the start with no end date yields
  exactly the instants of January 1, 3, 5, 8, 10 and 12 of 2024, in strictly ascending
  order, whenever the default horizon of one year from the time of the call reaches
  2024-01-12.
\<close>

theorem weekly_scenario_yields_six_instants:
  assumes "1705017600000 \<le> add_years now 1"
  shows "generateRecurrenceRuleString (rrule_model add_years) now scenario_input
           = Inr scenario_string
       \<and> getRecurringInstanceDates (rrule_model add_years) now scenario_string
            1704067200000 None None
           = Inr [1704067200000, 1704240000000, 1704412800000, 1704672000000, 1704844800000,
                  1705017600000]
       \<and> map date_time_string
            [1704067200000, 1704240000000, 1704412800000, 1704672000000, 1704844800000,
             1705017600000]
           = [''20240101T000000Z'', ''20240103T000000Z'', ''20240105T000000Z'',
              ''20240108T000000Z'', ''20240110T000000Z'', ''20240112T000000Z'']
       \<and> sorted_wrt (<)
            [1704067200000, 1704240000000, 1704412800000, 1704672000000, 1704844800000,
             1705017600000 :: int]"
proof -
  have "getRecurringInstanceDates (rrule_model add_years) now scenario_string
            1704067200000 None None
           = Inr [1704067200000, 1704240000000, 1704412800000, 1704672000000, 1704844800000,
                  1705017600000]"
    using assms
    by (simp add: getRecurringInstanceDates_def rrule_model_def scenario_parsed
        spec_between_def scenario_occurrences)
  moreover have "map date_time_string
            [1704067200000, 1704240000000, 1704412800000, 1704672000000, 1704844800000,
             1705017600000]
           = [''20240101T000000Z'', ''20240103T000000Z'', ''20240105T000000Z'',
              ''20240108T000000Z'', ''20240110T000000Z'', ''20240112T000000Z'']"
    by code_simp
  ultimately show ?thesis
    by (simp add: scenario_encoded)
qed


theorem weekly_scenario_yields_six_instants_witness:
  "getRecurringInstanceDates (rrule_model years_of_365_days) 1735689600000
       scenario_string 1704067200000 None None
     = Inr [1704067200000, 1704240000000, 1704412800000, 1704672000000, 1704844800000,
            1705017600000]"
proof -
  have "1705017600000 \<le> years_of_365_days 1735689600000 1"
    by (simp add: years_of_365_days_def)
  from weekly_scenario_yields_six_instants [of years_of_365_days 1735689600000, OF this]
  show ?thesis
    by simp
qed

end
